theory Spec2Isabelle
  imports Complex_Main
begin

section \<open>Exceptions and arrays\<close>

text \<open>
  The Python exceptions the pipeline raises or lets through. A call that raises is
  modelled as a value \<open>Inl e\<close>; a call that returns \<open>v\<close> as \<open>Inr v\<close>.
  \<open>OtherError\<close> stands for any exception of an external library that the sources
  neither raise nor catch by name.
\<close>

datatype error =
    ReferenceError string
  | RuntimeError string
  | UnboundLocalError string
  | KeyError
  | ValueError
  | IndexError
  | TypeError
  | AttributeError
  | OtherError string

definition bindE :: "error + 'a \<Rightarrow> ('a \<Rightarrow> error + 'b) \<Rightarrow> error + 'b" where
  "bindE m f = (case m of Inl e \<Rightarrow> Inl e | Inr x \<Rightarrow> f x)"

text \<open>
  A float that a computation of the pipeline produces is a real number or nan.
  Rounding, overflow and the infinities are not modelled. Comparisons with nan are
  false except \<open>!=\<close>, and arithmetic on nan gives nan. The code divides by nonzero
  denominators only, so the quotient by zero is never used.
\<close>

datatype flt = Fin real | NaN

instantiation flt :: zero
begin
definition zero_flt :: flt where
  "zero_flt = Fin 0"
instance ..
end

fun fdiv :: "flt \<Rightarrow> flt \<Rightarrow> flt" where
  "fdiv (Fin a) (Fin b) = (if b = 0 then NaN else Fin (a / b))"
| "fdiv _ _ = NaN"

fun fgt :: "flt \<Rightarrow> real \<Rightarrow> bool" where
  "fgt (Fin a) b = (a > b)"
| "fgt NaN b = False"

fun fge :: "flt \<Rightarrow> real \<Rightarrow> bool" where
  "fge (Fin a) b = (a \<ge> b)"
| "fge NaN b = False"

text \<open>
  A two-dimensional numpy array: its shape is \<open>(length rows, ncols)\<close>. The width
  is kept beside the rows because an array with no rows still has one. A feature
  matrix that the pipeline is given holds real numbers (\<open>matrix\<close>); a matrix that
  \<open>boxcox\<close> filled may hold nan (\<open>fmatrix\<close>). A label vector is a list of integers.
\<close>

record 'a array2 =
  ncols :: nat
  rows :: "'a list list"

type_synonym matrix = "real array2"

type_synonym fmatrix = "flt array2"

definition nrows :: "'a array2 \<Rightarrow> nat" where
  "nrows M = length (rows M)"

definition wf_matrix :: "'a array2 \<Rightarrow> bool" where
  "wf_matrix M = list_all (\<lambda>r. length r = ncols M) (rows M)"

text \<open>\<open>np.zeros(X.shape)\<close>\<close>

definition zeros_like :: "'a array2 \<Rightarrow> ('b :: zero) array2" where
  "zeros_like X = \<lparr>ncols = ncols X, rows = replicate (nrows X) (replicate (ncols X) 0)\<rparr>"

text \<open>\<open>X[:, i]\<close>: numpy raises IndexError when the column does not exist.\<close>

definition get_col :: "'a array2 \<Rightarrow> nat \<Rightarrow> error + 'a list" where
  "get_col X i = (if i < ncols X then Inr (map (\<lambda>r. r ! i) (rows X)) else Inl IndexError)"

text \<open>
  \<open>X[:, i] = v\<close>: IndexError when the column does not exist, ValueError when
  \<open>v\<close> has not one entry per row (numpy cannot broadcast it).
\<close>

definition set_col :: "'a array2 \<Rightarrow> nat \<Rightarrow> 'a list \<Rightarrow> error + 'a array2" where
  "set_col X i v =
     (if \<not> i < ncols X then Inl IndexError
      else if length v \<noteq> nrows X then Inl ValueError
      else Inr (X\<lparr>rows := map2 (\<lambda>r x. r[i := x]) (rows X) v\<rparr>))"

text \<open>\<open>X[idx, :]\<close>: the rows at the given indices, IndexError when one is out of range.\<close>

definition take_rows :: "'a array2 \<Rightarrow> nat list \<Rightarrow> error + 'a array2" where
  "take_rows X idx =
     (if list_all (\<lambda>i. i < nrows X) idx
      then Inr \<lparr>ncols = ncols X, rows = map (\<lambda>i. rows X ! i) idx\<rparr>
      else Inl IndexError)"

text \<open>\<open>np.where(P(v))[0]\<close>: the indices at which the entry satisfies \<open>P\<close>, ascending.\<close>

definition where_idx :: "('a \<Rightarrow> bool) \<Rightarrow> 'a list \<Rightarrow> nat list" where
  "where_idx P v = filter (\<lambda>i. P (v ! i)) [0..<length v]"

text \<open>\<open>v[idx]\<close> for an index array computed by \<open>np.where\<close> on a vector as long as \<open>v\<close>.\<close>

definition take_idx :: "'a list \<Rightarrow> nat list \<Rightarrow> 'a list" where
  "take_idx v idx = map (\<lambda>i. v ! i) idx"

text \<open>\<open>r[idx] = vals\<close>, entry by entry.\<close>

fun put_idx :: "'a list \<Rightarrow> nat list \<Rightarrow> 'a list \<Rightarrow> 'a list" where
  "put_idx r (i # idx) (x # xs) = put_idx (r[i := x]) idx xs"
| "put_idx r _ _ = r"

text \<open>\<open>r[idx] = c\<close> for a scalar \<open>c\<close>.\<close>

definition put_const :: "'a list \<Rightarrow> nat list \<Rightarrow> 'a \<Rightarrow> 'a list" where
  "put_const r idx c = fold (\<lambda>i acc. acc[i := c]) idx r"

section \<open>The numeric libraries\<close>

text \<open>
  scipy and numpy are not part of the repository. Their functions are parameters of
  the model: what \<open>fit\<close> and \<open>predict\<close> do with their results is the repository's
  code, what they compute is not. Every one that can raise returns a sum.

  \<open>boxcox(x)\<close>, which fits the parameter, raises on data that is not positive, so
  what it returns holds no nan. \<open>boxcox(x, lmbda=l)\<close> either raises on such data or
  returns nan for it, with the version of scipy: its result is a list of floats.

  A frozen \<open>multivariate_normal\<close> object is a record holding the mean and covariance
  it was built from and its density at a point of real coordinates.
\<close>

record rv_frozen =
  rv_mean :: "real list"
  rv_cov :: "real list list"
  density :: "real list \<Rightarrow> real"

text \<open>
  The method \<open>pdf\<close> of the frozen object, on a matrix of points. scipy subtracts the
  mean from the matrix and multiplies by a square matrix of the distribution's
  dimension: a matrix of that width gives the density at each row, a matrix of one
  column is broadcast against the mean (each row repeated to the dimension), and for
  any other width numpy raises ValueError. The density at a row that holds a nan is
  nan. scipy squeezes its result: for one row it returns a scalar, not a vector of
  length one.
\<close>

fun finite_row :: "flt list \<Rightarrow> real list option" where
  "finite_row [] = Some []"
| "finite_row (Fin x # r) = map_option (\<lambda>v. x # v) (finite_row r)"
| "finite_row (NaN # r) = None"

definition pdf_row :: "rv_frozen \<Rightarrow> flt list \<Rightarrow> flt" where
  "pdf_row rv r = (case finite_row r of None \<Rightarrow> NaN | Some v \<Rightarrow> Fin (density rv v))"

datatype pdf_out = Scalar flt | Vector "flt list"

definition broadcast :: "nat \<Rightarrow> fmatrix \<Rightarrow> error + flt list list" where
  "broadcast n X =
     (if ncols X = n then Inr (rows X)
      else if ncols X = 1 then Inr (map (\<lambda>r. concat (replicate n r)) (rows X))
      else Inl ValueError)"

definition squeeze :: "flt list \<Rightarrow> pdf_out" where
  "squeeze out = (case out of [v] \<Rightarrow> Scalar v | _ \<Rightarrow> Vector out)"

definition pdf :: "rv_frozen \<Rightarrow> fmatrix \<Rightarrow> error + pdf_out" where
  "pdf rv X =
     bindE (broadcast (length (rv_mean rv)) X) (\<lambda>points.
       Inr (squeeze (map (pdf_row rv) points)))"

record numerics =
  boxcox_mle :: "real list \<Rightarrow> error + real list \<times> real"
  boxcox_lmbda :: "real list \<Rightarrow> real \<Rightarrow> error + flt list"
  np_mean :: "matrix \<Rightarrow> real list"
  np_cov :: "matrix \<Rightarrow> real list list"
  multivariate_normal :: "real list \<Rightarrow> real list list \<Rightarrow> error + rv_frozen"

section \<open>contour\_classifiers/mv\_gaussian.py\<close>

definition EPS :: real where
  "EPS = 1"

definition MAX_SCORE :: real where
  "MAX_SCORE = 10000"

text \<open>The attributes \<open>__init__\<close> sets to None; \<open>None\<close> here is Python's None.\<close>

record mv_gaussian =
  rv_pos :: "rv_frozen option"
  rv_neg :: "rv_frozen option"
  n_feats :: "nat option"
  lmbda :: "real list option"

definition mv_gaussian_init :: mv_gaussian where
  "mv_gaussian_init = \<lparr>rv_pos = None, rv_neg = None, n_feats = None, lmbda = None\<rparr>"


text \<open>
  \<open>_transform\<close>: the loop over \<open>range(self.n_feats)\<close>. Each pass reads column
  \<open>i\<close> of \<open>X\<close>, adds \<open>EPS\<close>, reads \<open>self.lmbda[i]\<close>, calls \<open>boxcox\<close> with
  that parameter and stores the result in column \<open>i\<close> of \<open>X_boxcox\<close>.
\<close>

fun transform_loop ::
  "numerics \<Rightarrow> real list option \<Rightarrow> matrix \<Rightarrow> nat list \<Rightarrow> fmatrix \<Rightarrow> error + fmatrix" where
  "transform_loop np lm X [] X_boxcox = Inr X_boxcox"
| "transform_loop np lm X (i # rest) X_boxcox =
     bindE (get_col X i) (\<lambda>col.
       case lm of
         None \<Rightarrow> Inl TypeError
       | Some l \<Rightarrow>
           if \<not> i < length l then Inl IndexError
           else bindE (boxcox_lmbda np (map (\<lambda>x. x + EPS) col) (l ! i)) (\<lambda>v.
                bindE (set_col X_boxcox i v) (\<lambda>X_boxcox'.
                  transform_loop np lm X rest X_boxcox')))"

definition transform :: "numerics \<Rightarrow> mv_gaussian \<Rightarrow> matrix \<Rightarrow> error + fmatrix" where
  "transform np self X =
     (case n_feats self of
        None \<Rightarrow> Inl TypeError
      | Some n \<Rightarrow> transform_loop np (lmbda self) X [0..<n] (zeros_like X))"

text \<open>
  Lines 56 to 64 of \<open>predict\<close> on two density vectors: the ratio, written with
  the index arrays of the source, in the order of the source's assignments.
\<close>

definition ratio_of :: "flt list \<Rightarrow> flt list \<Rightarrow> flt list" where
  "ratio_of numerator denominator =
     (let ratio0 = replicate (length numerator) 0;
          nonzero_denom = where_idx (\<lambda>d. d \<noteq> 0) denominator;
          zero_denom = where_idx (\<lambda>d. d = 0) denominator;
          ratio1 = put_idx ratio0 nonzero_denom
                     (map2 fdiv (take_idx numerator nonzero_denom)
                                (take_idx denominator nonzero_denom));
          ratio2 = put_const ratio1 zero_denom (Fin MAX_SCORE);
          ratio3 = put_const ratio2 (where_idx (\<lambda>a. a = 0) numerator) 0;
          ratio4 = put_const ratio3 (where_idx (\<lambda>r. fgt r MAX_SCORE) ratio3) (Fin MAX_SCORE)
      in ratio4)"

text \<open>
  The same lines on what \<open>pdf\<close> returned. On two scalars, which is what a matrix
  of one row gives, the index arrays cannot index them and the lines raise
  IndexError.
\<close>

definition ratio_lines :: "pdf_out \<Rightarrow> pdf_out \<Rightarrow> error + flt list" where
  "ratio_lines numerator denominator =
     (case (numerator, denominator) of
        (Vector n, Vector d) \<Rightarrow> Inr (ratio_of n d)
      | _ \<Rightarrow> Inl IndexError)"

text \<open>
  \<open>MvGaussian.predict\<close>. It returns the object with the result: Python's method may
  assign to \<open>self\<close>, so the state after the call is part of what the call does.
\<close>

definition mvg_predict ::
  "numerics \<Rightarrow> mv_gaussian \<Rightarrow> matrix \<Rightarrow> mv_gaussian \<times> (error + flt list)" where
  "mvg_predict np self X =
     (case rv_pos self of
        None \<Rightarrow> (self, Inl (ReferenceError ''fit must be called before predict can be called''))
      | Some rvp \<Rightarrow>
          (case transform np self X of
             Inl e \<Rightarrow> (self, Inl e)
           | Inr transformed_feats \<Rightarrow>
               (case pdf rvp transformed_feats of
                  Inl e \<Rightarrow> (self, Inl e)
                | Inr numerator \<Rightarrow>
                    (case rv_neg self of
                       None \<Rightarrow> (self, Inl AttributeError)
                     | Some rvn \<Rightarrow>
                         (case pdf rvn transformed_feats of
                            Inl e \<Rightarrow> (self, Inl e)
                          | Inr denominator \<Rightarrow>
                              (self, ratio_lines numerator denominator))))))"



text \<open>
  \<open>_fit_boxcox\<close>: the loop over \<open>range(self.n_feats)\<close>. The tuple assignment
  stores the transformed column first and the fitted parameter second.
\<close>

fun fit_boxcox_loop ::
  "numerics \<Rightarrow> matrix \<Rightarrow> nat list \<Rightarrow> matrix \<Rightarrow> real list \<Rightarrow> error + matrix \<times> real list" where
  "fit_boxcox_loop np X [] X_boxcox lmbda_opt = Inr (X_boxcox, lmbda_opt)"
| "fit_boxcox_loop np X (i # rest) X_boxcox lmbda_opt =
     bindE (get_col X i) (\<lambda>col.
     bindE (boxcox_mle np (map (\<lambda>x. x + EPS) col)) (\<lambda>(v, l).
     bindE (set_col X_boxcox i v) (\<lambda>X_boxcox'.
       if \<not> i < length lmbda_opt then Inl IndexError
       else fit_boxcox_loop np X rest X_boxcox' (lmbda_opt[i := l]))))"

text \<open>
  \<open>self.n_feats\<close> is assigned before the loop and \<open>self.lmbda\<close> after it: when
  \<open>boxcox\<close> raises, the object keeps the new \<open>n_feats\<close> and the old \<open>lmbda\<close>.
\<close>

definition fit_boxcox :: "numerics \<Rightarrow> mv_gaussian \<Rightarrow> matrix \<Rightarrow> mv_gaussian \<times> (error + matrix)" where
  "fit_boxcox np self X =
     (let self1 = self\<lparr>n_feats := Some (ncols X)\<rparr> in
      case fit_boxcox_loop np X [0..<ncols X] (zeros_like X) (replicate (ncols X) 0) of
        Inl e \<Rightarrow> (self1, Inl e)
      | Inr (X_boxcox, lmbda_opt) \<Rightarrow> (self1\<lparr>lmbda := Some lmbda_opt\<rparr>, Inr X_boxcox))"

text \<open>
  \<open>MvGaussian.fit\<close>. The two assignments to \<open>self.rv_pos\<close> and \<open>self.rv_neg\<close> are
  its last statements, after both distributions have been built.
\<close>

definition mvg_fit ::
  "numerics \<Rightarrow> mv_gaussian \<Rightarrow> matrix \<Rightarrow> int list \<Rightarrow> mv_gaussian \<times> (error + unit)" where
  "mvg_fit np self X Y =
     (case fit_boxcox np self X of
        (self1, Inl e) \<Rightarrow> (self1, Inl e)
      | (self1, Inr X_boxcox) \<Rightarrow>
          (case
             bindE (take_rows X_boxcox (where_idx (\<lambda>y. y = 1) Y)) (\<lambda>X_pos.
             let mu_pos = np_mean np X_pos; cov_pos = np_cov np X_pos in
             bindE (take_rows X_boxcox (where_idx (\<lambda>y. y = 0) Y)) (\<lambda>X_neg.
             let mu_neg = np_mean np X_neg; cov_neg = np_cov np X_neg in
             bindE (multivariate_normal np mu_pos cov_pos) (\<lambda>rvp.
             bindE (multivariate_normal np mu_neg cov_neg) (\<lambda>rvn.
               Inr (rvp, rvn)))))
           of
             Inl e \<Rightarrow> (self1, Inl e)
           | Inr (rvp, rvn) \<Rightarrow> (self1\<lparr>rv_pos := Some rvp, rv_neg := Some rvn\<rparr>, Inr ())))"

definition mvg_threshold :: "mv_gaussian \<Rightarrow> real" where
  "mvg_threshold self = 1"

definition mvg_get_id :: string where
  "mvg_get_id = ''mv_gaussian''"

section \<open>contour\_classifiers/random\_forest.py\<close>

text \<open>
  scikit-learn is not part of the repository either. A fitted estimator is an object
  with the two methods the classifier calls. \<open>shuffle\<close> and the randomized search are
  parameters; the search's arguments are the data the source passes.

  With \<open>random_state=None\<close> scikit-learn draws from numpy's global generator, whose
  state at the call is not the classifier's: it is the argument \<open>entropy\<close> of \<open>fit\<close>.
\<close>

record estimator =
  predict_proba :: "matrix \<Rightarrow> error + matrix"
  predict_class :: "matrix \<Rightarrow> error + int list"

datatype rng = Seed nat | Unseeded nat

definition check_random_state :: "nat option \<Rightarrow> nat \<Rightarrow> rng" where
  "check_random_state seed entropy = (case seed of Some k \<Rightarrow> Seed k | None \<Rightarrow> Unseeded entropy)"

datatype param_dist = Randint int int | Choice "string option list" | Flags "bool list"

record rfc_args =
  rfc_n_estimators :: int
  rfc_n_jobs :: int
  rfc_class_weight :: string
  rfc_random_state :: rng

record search_args =
  search_estimator :: rfc_args
  param_distributions :: "(string \<times> param_dist) list"
  refit :: bool
  n_iter :: int
  scoring :: string
  search_random_state :: rng

record sklearn =
  shuffle :: "matrix \<Rightarrow> int list \<Rightarrow> rng \<Rightarrow> error + matrix \<times> int list"
  randomized_search :: "search_args \<Rightarrow> matrix \<Rightarrow> int list \<Rightarrow> error + estimator"

record random_forest =
  n_estimators :: int
  n_jobs :: int
  class_weight :: string
  n_iter_search :: int
  random_state :: "nat option"
  clf :: "estimator option"

text \<open>
  \<open>__init__\<close>; its defaults are \<open>n_estimators=50\<close>, \<open>n_jobs=-1\<close>,
  \<open>class_weight='balanced'\<close>, \<open>n_iter_search=100\<close>, \<open>random_state=None\<close>.
\<close>

definition random_forest_init ::
  "int \<Rightarrow> int \<Rightarrow> string \<Rightarrow> int \<Rightarrow> nat option \<Rightarrow> random_forest" where
  "random_forest_init n j w k seed =
     \<lparr>n_estimators = n, n_jobs = j, class_weight = w, n_iter_search = k,
      random_state = seed, clf = None\<rparr>"

definition random_forest_default :: random_forest where
  "random_forest_default = random_forest_init 50 (- 1) ''balanced'' 100 None"

text \<open>
  \<open>RandomForest.predict\<close>: column 1 of the probabilities the estimator gives, which
  are real numbers, returned as a vector of floats.
\<close>

definition rf_predict :: "random_forest \<Rightarrow> matrix \<Rightarrow> random_forest \<times> (error + flt list)" where
  "rf_predict self X =
     (case clf self of
        None \<Rightarrow> (self, Inl (ReferenceError ''fit must be called before predict can be called''))
      | Some c \<Rightarrow>
          (self, bindE (predict_proba c X) (\<lambda>P. bindE (get_col P 1) (\<lambda>p. Inr (map Fin p)))))"

definition rf_predict_discrete_label ::
  "random_forest \<Rightarrow> matrix \<Rightarrow> random_forest \<times> (error + int list)" where
  "rf_predict_discrete_label self X =
     (case clf self of
        None \<Rightarrow> (self, Inl (ReferenceError ''fit must be called before predict can be called''))
      | Some c \<Rightarrow> (self, predict_class c X))"

definition rf_param_dist :: "(string \<times> param_dist) list" where
  "rf_param_dist =
     [(''max_depth'', Randint 1 101),
      (''max_features'', Choice [None, Some ''auto'', Some ''sqrt'', Some ''log2'']),
      (''min_samples_split'', Randint 2 11),
      (''min_samples_leaf'', Randint 1 11),
      (''bootstrap'', Flags [True, False]),
      (''criterion'', Choice [Some ''gini'', Some ''entropy''])]"

text \<open>\<open>RandomForest.fit\<close>: \<open>self.clf\<close> is assigned by its last statement.\<close>

definition rf_fit ::
  "sklearn \<Rightarrow> nat \<Rightarrow> random_forest \<Rightarrow> matrix \<Rightarrow> int list \<Rightarrow> random_forest \<times> (error + unit)" where
  "rf_fit sk entropy self X Y =
     (let rs = check_random_state (random_state self) entropy in
      case
        bindE (shuffle sk X Y rs) (\<lambda>(x_shuffle, y_shuffle).
          let clf_cv = \<lparr>rfc_n_estimators = n_estimators self, rfc_n_jobs = n_jobs self,
                        rfc_class_weight = class_weight self, rfc_random_state = rs\<rparr>;
              random_search = \<lparr>search_estimator = clf_cv, param_distributions = rf_param_dist,
                               refit = True, n_iter = n_iter_search self,
                               scoring = ''f1_weighted'', search_random_state = rs\<rparr>
          in randomized_search sk random_search x_shuffle y_shuffle)
      of
        Inl e \<Rightarrow> (self, Inl e)
      | Inr best_estimator \<Rightarrow> (self\<lparr>clf := Some best_estimator\<rparr>, Inr ()))"

definition rf_threshold :: "random_forest \<Rightarrow> real" where
  "rf_threshold self = 1 / 2"

definition rf_get_id :: string where
  "rf_get_id = ''random_forest''"

section \<open>The classifier contract\<close>

text \<open>
  The pipeline calls \<open>fit\<close>, \<open>predict\<close> and \<open>threshold\<close> on whichever classifier the
  registry built; the two classes of the repository are the variants.
\<close>

datatype classifier = MvGaussian mv_gaussian | RandomForest random_forest

record libs =
  numpy :: numerics
  scikit :: sklearn
  entropy :: nat

definition clf_fit :: "libs \<Rightarrow> classifier \<Rightarrow> matrix \<Rightarrow> int list \<Rightarrow> classifier \<times> (error + unit)" where
  "clf_fit L c X Y =
     (case c of
        MvGaussian m \<Rightarrow> (case mvg_fit (numpy L) m X Y of (m', r) \<Rightarrow> (MvGaussian m', r))
      | RandomForest f \<Rightarrow>
          (case rf_fit (scikit L) (entropy L) f X Y of (f', r) \<Rightarrow> (RandomForest f', r)))"

definition clf_predict :: "libs \<Rightarrow> classifier \<Rightarrow> matrix \<Rightarrow> classifier \<times> (error + flt list)" where
  "clf_predict L c X =
     (case c of
        MvGaussian m \<Rightarrow> (case mvg_predict (numpy L) m X of (m', r) \<Rightarrow> (MvGaussian m', r))
      | RandomForest f \<Rightarrow> (case rf_predict f X of (f', r) \<Rightarrow> (RandomForest f', r)))"

definition clf_threshold :: "classifier \<Rightarrow> real" where
  "clf_threshold c = (case c of MvGaussian m \<Rightarrow> mvg_threshold m | RandomForest f \<Rightarrow> rf_threshold f)"

text \<open>
  What the constructor would build anew: the same class with the same constructor
  arguments and nothing fitted.
\<close>

definition fresh :: "classifier \<Rightarrow> classifier" where
  "fresh c =
     (case c of
        MvGaussian m \<Rightarrow> MvGaussian mv_gaussian_init
      | RandomForest f \<Rightarrow>
          RandomForest (random_forest_init (n_estimators f) (n_jobs f) (class_weight f)
                          (n_iter_search f) (random_state f)))"

section \<open>run.py\<close>

text \<open>
  \<open>motif.core\<close> is not among the sources: the three registries, the extractor and
  feature-extractor base classes, \<open>Contour.compute_labels\<close> and
  \<open>ContourClassifier.score\<close> are parameters. A registry maps an identifier to a
  zero-argument constructor; calling the constructor either raises or yields the new
  object's attributes, so a registry entry is that outcome. A contour is a value of
  type \<open>'c\<close>, an annotation one of type \<open>'a\<close>, a score dictionary a map.
\<close>

type_synonym 'o factory = "error + 'o"

type_synonym scores = "string \<rightharpoonup> real"

record 'c contour_extractor =
  compute_contours :: "string \<Rightarrow> error + 'c"

record 'c feature_extractor =
  compute_all :: "'c \<Rightarrow> error + matrix"

record ('c, 'a) motif_core =
  CONTOUR_EXTRACTOR_REGISTRY :: "string \<rightharpoonup> 'c contour_extractor factory"
  FEATURE_EXTRACTOR_REGISTRY :: "string \<rightharpoonup> 'c feature_extractor factory"
  CONTOUR_CLASSIFIER_REGISTRY :: "string \<rightharpoonup> classifier factory"
  compute_labels :: "'c \<Rightarrow> 'a \<Rightarrow> error + int list"
  score :: "classifier \<Rightarrow> flt list \<Rightarrow> int list \<Rightarrow> flt list option \<Rightarrow> error + scores"

text \<open>
  \<open>get_module\<close>. Python objects have an identity: the model numbers the objects in
  the order of their construction, \<open>n\<close> being how many exist before the call, and
  an instance is the pair of its number and its attributes. The \<open>try\<close> block holds
  both the dictionary lookup and the call of what it found.
\<close>

definition get_module ::
  "string option \<Rightarrow> (string \<rightharpoonup> 'o factory) \<Rightarrow> nat \<Rightarrow> nat \<times> (error + (nat \<times> 'o) option)" where
  "get_module module_id module_registry n =
     (case module_id of
        None \<Rightarrow> (n, Inr None)
      | Some name \<Rightarrow>
          (case
             bindE (case module_registry name of None \<Rightarrow> Inl KeyError | Some factory \<Rightarrow> Inr factory)
                   (\<lambda>factory. factory)
           of
             Inl KeyError \<Rightarrow>
               (n, Inl (RuntimeError (''Algorithm '' @ name @ '' can not be found in motif!'')))
           | Inl e \<Rightarrow> (n, Inl e)
           | Inr obj \<Rightarrow> (Suc n, Inr (Some (n, obj)))))"

definition get_extract_module ::
  "('c, 'a) motif_core \<Rightarrow> string option \<Rightarrow> nat \<Rightarrow> nat \<times> (error + (nat \<times> 'c contour_extractor) option)" where
  "get_extract_module core extract_id = get_module extract_id (CONTOUR_EXTRACTOR_REGISTRY core)"

definition get_features_module ::
  "('c, 'a) motif_core \<Rightarrow> string option \<Rightarrow> nat \<Rightarrow> nat \<times> (error + (nat \<times> 'c feature_extractor) option)" where
  "get_features_module core feature_id = get_module feature_id (FEATURE_EXTRACTOR_REGISTRY core)"

definition get_classify_module ::
  "('c, 'a) motif_core \<Rightarrow> string option \<Rightarrow> nat \<Rightarrow> nat \<times> (error + (nat \<times> classifier) option)" where
  "get_classify_module core classifier_id = get_module classifier_id (CONTOUR_CLASSIFIER_REGISTRY core)"

text \<open>
  The state a run of the pipeline changes: the number of objects constructed, the
  attributes of the object the variable \<open>contour_classifier\<close> names (\<open>None\<close> when the
  variable is None), and the list of the method calls made on that object, which
  the code does not keep and the properties about "how many calls" need.
\<close>

datatype call = Fit matrix "int list" | Predict matrix | Score "flt list" "int list"

record run_state =
  constructed :: nat
  contour_classifier :: "classifier option"
  calls :: "call list"

definition returnS :: "'x \<Rightarrow> 's \<Rightarrow> 's \<times> (error + 'x)" where
  "returnS x s = (s, Inr x)"

definition liftE :: "error + 'x \<Rightarrow> 's \<Rightarrow> 's \<times> (error + 'x)" where
  "liftE r s = (s, r)"

definition bindS ::
  "('s \<Rightarrow> 's \<times> (error + 'x)) \<Rightarrow> ('x \<Rightarrow> 's \<Rightarrow> 's \<times> (error + 'y)) \<Rightarrow> 's \<Rightarrow> 's \<times> (error + 'y)" where
  "bindS m f s = (case m s of (s', Inl e) \<Rightarrow> (s', Inl e) | (s', Inr x) \<Rightarrow> f x s')"

text \<open>A method call on \<open>contour_classifier\<close>: AttributeError when the variable is None.\<close>

definition call_fit :: "libs \<Rightarrow> matrix \<Rightarrow> int list \<Rightarrow> run_state \<Rightarrow> run_state \<times> (error + unit)" where
  "call_fit L X Y s =
     (case contour_classifier s of
        None \<Rightarrow> (s, Inl AttributeError)
      | Some c \<Rightarrow>
          (case clf_fit L c X Y of
             (c', r) \<Rightarrow> (s\<lparr>contour_classifier := Some c', calls := calls s @ [Fit X Y]\<rparr>, r)))"

definition call_predict :: "libs \<Rightarrow> matrix \<Rightarrow> run_state \<Rightarrow> run_state \<times> (error + flt list)" where
  "call_predict L X s =
     (case contour_classifier s of
        None \<Rightarrow> (s, Inl AttributeError)
      | Some c \<Rightarrow>
          (case clf_predict L c X of
             (c', r) \<Rightarrow> (s\<lparr>contour_classifier := Some c', calls := calls s @ [Predict X]\<rparr>, r)))"

definition read_threshold :: "run_state \<Rightarrow> run_state \<times> (error + real)" where
  "read_threshold s =
     (case contour_classifier s of
        None \<Rightarrow> (s, Inl AttributeError)
      | Some c \<Rightarrow> (s, Inr (clf_threshold c)))"

definition call_score ::
  "('c, 'a) motif_core \<Rightarrow> flt list \<Rightarrow> int list \<Rightarrow> flt list option \<Rightarrow>
   run_state \<Rightarrow> run_state \<times> (error + scores)" where
  "call_score core Y_pred Y_true y_prob s =
     (case contour_classifier s of
        None \<Rightarrow> (s, Inl AttributeError)
      | Some c \<Rightarrow> (s\<lparr>calls := calls s @ [Score Y_pred Y_true]\<rparr>, score core c Y_pred Y_true y_prob))"

text \<open>\<open>np.concatenate\<close> of a list of arrays: ValueError on the empty list and on
  matrices of different widths.\<close>

definition concatenate :: "matrix list \<Rightarrow> error + matrix" where
  "concatenate Ms =
     (case Ms of
        [] \<Rightarrow> Inl ValueError
      | M # _ \<Rightarrow>
          if list_all (\<lambda>N. ncols N = ncols M) Ms
          then Inr \<lparr>ncols = ncols M, rows = concat (map rows Ms)\<rparr>
          else Inl ValueError)"

definition concatenate_labels :: "int list list \<Rightarrow> error + int list" where
  "concatenate_labels Ys = (case Ys of [] \<Rightarrow> Inl ValueError | _ \<Rightarrow> Inr (concat Ys))"

text \<open>The loop of \<open>process_with_labels\<close>, with its three lists.\<close>

fun labels_loop ::
  "('c, 'a) motif_core \<Rightarrow> 'c contour_extractor option \<Rightarrow> 'c feature_extractor option \<Rightarrow>
   (string \<times> 'a) list \<Rightarrow> 'c list \<Rightarrow> matrix list \<Rightarrow> int list list \<Rightarrow>
   error + 'c list \<times> matrix list \<times> int list list" where
  "labels_loop core ex fe [] contour_list features_list labels_list =
     Inr (contour_list, features_list, labels_list)"
| "labels_loop core ex fe ((audio_filepath, annotation) # rest) contour_list features_list labels_list =
     bindE (case ex of None \<Rightarrow> Inl AttributeError | Some e \<Rightarrow> compute_contours e audio_filepath) (\<lambda>ctr.
     bindE (compute_labels core ctr annotation) (\<lambda>Y_train.
     bindE (case fe of None \<Rightarrow> Inl AttributeError | Some f \<Rightarrow> compute_all f ctr) (\<lambda>X_train.
       labels_loop core ex fe rest
         (contour_list @ [ctr]) (features_list @ [X_train]) (labels_list @ [Y_train]))))"

definition process_with_labels ::
  "('c, 'a) motif_core \<Rightarrow> 'c contour_extractor option \<Rightarrow> 'c feature_extractor option \<Rightarrow>
   (string \<times> 'a) list \<Rightarrow> error + matrix \<times> int list \<times> 'c list" where
  "process_with_labels core contour_extractor feature_extractor file_pairs =
     bindE (labels_loop core contour_extractor feature_extractor file_pairs [] [] [])
       (\<lambda>(contour_list, features_list, labels_list).
     bindE (concatenate features_list) (\<lambda>X.
     bindE (concatenate_labels labels_list) (\<lambda>Y.
       Inr (X, Y, contour_list))))"

text \<open>The loop of \<open>process_audio_only\<close>.\<close>

fun audio_loop ::
  "libs \<Rightarrow> 'c contour_extractor option \<Rightarrow> 'c feature_extractor option \<Rightarrow> string list \<Rightarrow>
   ('c \<times> matrix \<times> flt list) list \<Rightarrow> run_state \<Rightarrow>
   run_state \<times> (error + ('c \<times> matrix \<times> flt list) list)" where
  "audio_loop L ex fe [] contour_list = returnS contour_list"
| "audio_loop L ex fe (audio_filepath # rest) contour_list =
     bindS (liftE (case ex of None \<Rightarrow> Inl AttributeError | Some e \<Rightarrow> compute_contours e audio_filepath)) (\<lambda>ctr.
     bindS (liftE (case fe of None \<Rightarrow> Inl AttributeError | Some f \<Rightarrow> compute_all f ctr)) (\<lambda>X.
     bindS (call_predict L X) (\<lambda>Y.
       audio_loop L ex fe rest (contour_list @ [(ctr, X, Y)]))))"

definition process_audio_only ::
  "libs \<Rightarrow> 'c contour_extractor option \<Rightarrow> 'c feature_extractor option \<Rightarrow> string list \<Rightarrow>
   run_state \<Rightarrow> run_state \<times> (error + ('c \<times> matrix \<times> flt list) list)" where
  "process_audio_only L contour_extractor feature_extractor audio_files =
     audio_loop L contour_extractor feature_extractor audio_files []"

text \<open>
  The three blocks of \<open>process\<close>. \<open>(Y_prob >= threshold).astype(int)\<close> is a vector
  of zeros and ones; the testing block passes the scores themselves to \<open>score\<close>.
\<close>

definition discretize :: "real \<Rightarrow> flt list \<Rightarrow> flt list" where
  "discretize th Y_prob = map (\<lambda>p. if fge p th then Fin 1 else Fin 0) Y_prob"

definition training_block ::
  "libs \<Rightarrow> ('c, 'a) motif_core \<Rightarrow> 'c contour_extractor option \<Rightarrow> 'c feature_extractor option \<Rightarrow>
   (string \<times> 'a) list \<Rightarrow> run_state \<Rightarrow> run_state \<times> (error + scores \<times> 'c list)" where
  "training_block L core contour_extractor feature_extractor training_pairs =
     bindS (liftE (process_with_labels core contour_extractor feature_extractor training_pairs))
       (\<lambda>(X_train, Y_train, train_contours).
     bindS (call_fit L X_train Y_train) (\<lambda>_.
     bindS (call_predict L X_train) (\<lambda>Y_prob.
     bindS read_threshold (\<lambda>th.
     bindS (call_score core (discretize th Y_prob) Y_train (Some Y_prob)) (\<lambda>train_scores.
       returnS (train_scores, train_contours))))))"

definition testing_block ::
  "libs \<Rightarrow> ('c, 'a) motif_core \<Rightarrow> 'c contour_extractor option \<Rightarrow> 'c feature_extractor option \<Rightarrow>
   (string \<times> 'a) list \<Rightarrow> run_state \<Rightarrow> run_state \<times> (error + scores \<times> 'c list)" where
  "testing_block L core contour_extractor feature_extractor testing_pairs =
     bindS (liftE (process_with_labels core contour_extractor feature_extractor testing_pairs))
       (\<lambda>(X_test, Y_test, test_contours).
     bindS (call_predict L X_test) (\<lambda>Y_pred.
     (\<lambda>s. case call_score core Y_pred Y_test None s of
            (s', Inl ValueError) \<Rightarrow> (s', Inr (Map.empty, test_contours))
          | (s', Inl e) \<Rightarrow> (s', Inl e)
          | (s', Inr test_scores) \<Rightarrow> (s', Inr (test_scores, test_contours)))))"

text \<open>
  The \<open>return\<close> statement reads five local variables, left to right. A variable
  that no block assigned is unbound, and reading it raises UnboundLocalError.
\<close>

definition return_tuple ::
  "(scores \<times> 'c list) option \<Rightarrow> (scores \<times> 'c list) option \<Rightarrow>
   ('c \<times> matrix \<times> flt list) list option \<Rightarrow>
   error + scores \<times> scores \<times> 'c list \<times> 'c list \<times> ('c \<times> matrix \<times> flt list) list" where
  "return_tuple train test audio =
     (case train of
        None \<Rightarrow> Inl (UnboundLocalError ''train_scores'')
      | Some (train_scores, train_contours) \<Rightarrow>
          (case test of
             None \<Rightarrow> Inl (UnboundLocalError ''test_scores'')
           | Some (test_scores, test_contours) \<Rightarrow>
               (case audio of
                  None \<Rightarrow> Inl (UnboundLocalError ''contour_list'')
                | Some contour_list \<Rightarrow>
                    Inr (train_scores, test_scores, train_contours, test_contours, contour_list))))"

definition construct ::
  "(nat \<Rightarrow> nat \<times> (error + (nat \<times> 'o) option)) \<Rightarrow> run_state \<Rightarrow> run_state \<times> (error + 'o option)" where
  "construct g s =
     (case g (constructed s) of
        (n, Inl e) \<Rightarrow> (s\<lparr>constructed := n\<rparr>, Inl e)
      | (n, Inr inst) \<Rightarrow> (s\<lparr>constructed := n\<rparr>, Inr (map_option snd inst)))"

definition optionally :: "'i option \<Rightarrow> ('i \<Rightarrow> 's \<Rightarrow> 's \<times> (error + 'x)) \<Rightarrow> 's \<Rightarrow> 's \<times> (error + 'x option)" where
  "optionally arg block =
     (case arg of
        None \<Rightarrow> returnS None
      | Some v \<Rightarrow> bindS (block v) (\<lambda>r. returnS (Some r)))"

definition process ::
  "libs \<Rightarrow> ('c, 'a) motif_core \<Rightarrow> string list option \<Rightarrow> (string \<times> 'a) list option \<Rightarrow>
   (string \<times> 'a) list option \<Rightarrow> string option \<Rightarrow> string option \<Rightarrow> string option \<Rightarrow>
   run_state \<Rightarrow>
   run_state \<times> (error + scores \<times> scores \<times> 'c list \<times> 'c list \<times> ('c \<times> matrix \<times> flt list) list)" where
  "process L core audio_files training_pairs testing_pairs extract_id feature_id classifier_id =
     bindS (construct (get_extract_module core extract_id)) (\<lambda>contour_extractor.
     bindS (construct (get_features_module core feature_id)) (\<lambda>feature_extractor.
     bindS (construct (get_classify_module core classifier_id)) (\<lambda>classifier.
     bindS (\<lambda>s. (s\<lparr>contour_classifier := classifier\<rparr>, Inr ())) (\<lambda>_.
     bindS (optionally training_pairs
              (training_block L core contour_extractor feature_extractor)) (\<lambda>train.
     bindS (optionally testing_pairs
              (testing_block L core contour_extractor feature_extractor)) (\<lambda>test.
     bindS (optionally audio_files
              (process_audio_only L contour_extractor feature_extractor)) (\<lambda>audio.
       liftE (return_tuple train test audio))))))))"

text \<open>The calls of \<open>fit\<close> among the recorded calls.\<close>

fun is_fit :: "call \<Rightarrow> bool" where
  "is_fit (Fit X Y) = True"
| "is_fit (Predict X) = False"
| "is_fit (Score P Y) = False"

section \<open>Example values\<close>

text \<open>
  Concrete libraries and inputs at which the theorems below are instantiated. The
  library functions are stand-ins of the right types: a Box-Cox fit that always
  chooses the parameter 1 and refuses data that is not positive, a Box-Cox
  transform with a given parameter that returns nan where the formula has no
  value, and densities simple enough to be evaluated, two of them with zeros where
  a floating-point density underflows.
\<close>

definition demo_numerics :: numerics where
  "demo_numerics =
     \<lparr>boxcox_mle = (\<lambda>x. if list_ex (\<lambda>v. v \<le> 0) x then Inl ValueError
                         else Inr (map (\<lambda>v. v - 1) x, 1)),
      boxcox_lmbda = (\<lambda>x l. Inr (map (\<lambda>v. if v < 0 \<or> (v = 0 \<and> l \<le> 0) then NaN
                                           else Fin (if l = 0 then ln v else (v powr l - 1) / l)) x)),
      np_mean = (\<lambda>M. map (\<lambda>j. sum_list (map (\<lambda>r. r ! j) (rows M)) / real (nrows M)) [0..<ncols M]),
      np_cov = (\<lambda>M. []),
      multivariate_normal = (\<lambda>mu cov. Inr \<lparr>rv_mean = mu, rv_cov = cov,
                                               density = (\<lambda>x. if x = mu then 1 else 0)\<rparr>)\<rparr>"




definition demo_X :: matrix where
  "demo_X = \<lparr>ncols = 1, rows = [[0], [1], [2]]\<rparr>"

definition demo_estimator :: estimator where
  "demo_estimator =
     \<lparr>predict_proba = (\<lambda>X. Inr \<lparr>ncols = 2, rows = map (\<lambda>r. [1 / 4, 3 / 4]) (rows X)\<rparr>),
      predict_class = (\<lambda>X. Inr (map (\<lambda>r. 1) (rows X)))\<rparr>"

definition demo_sklearn :: sklearn where
  "demo_sklearn =
     \<lparr>shuffle = (\<lambda>X Y rs. if nrows X \<noteq> length Y then Inl ValueError else Inr (X, Y)),
      randomized_search = (\<lambda>args X Y. if rows X = [] then Inl ValueError else Inr demo_estimator)\<rparr>"

definition demo_libs :: libs where
  "demo_libs = \<lparr>numpy = demo_numerics, scikit = demo_sklearn, entropy = 0\<rparr>"

definition demo_train_X :: matrix where
  "demo_train_X = \<lparr>ncols = 1, rows = [[0], [1]]\<rparr>"

definition demo_train_Y :: "int list" where
  "demo_train_Y = [1, 0]"

definition demo_bad_X :: matrix where
  "demo_bad_X = \<lparr>ncols = 2, rows = [[- 2, 0], [- 3, 0]]\<rparr>"

definition demo_trained :: mv_gaussian where
  "demo_trained =
     \<lparr>rv_pos = Some \<lparr>rv_mean = [0], rv_cov = [], density = (\<lambda>x. if x = [0] then 1 else 0)\<rparr>,
      rv_neg = Some \<lparr>rv_mean = [1], rv_cov = [], density = (\<lambda>x. if x = [1] then 1 else 0)\<rparr>,
      n_feats = Some 1, lmbda = Some [1]\<rparr>"

definition demo_second_X :: matrix where
  "demo_second_X = \<lparr>ncols = 1, rows = [[2], [3]]\<rparr>"

definition demo_second_Y :: "int list" where
  "demo_second_Y = [0, 1]"

text \<open>
  A pipeline to run: the contour of a file is its name, the labels of a contour are
  its annotation, the features of the three kinds of file are the three matrices
  above, and \<open>score\<close> raises ValueError unless both classes occur among the labels.
\<close>

definition demo_extractor :: "string contour_extractor" where
  "demo_extractor =
     \<lparr>compute_contours = (\<lambda>f. if f = [] then Inl (OtherError ''no such file'') else Inr f)\<rparr>"

definition demo_features :: "string feature_extractor" where
  "demo_features =
     \<lparr>compute_all = (\<lambda>c. Inr (if c = ''a.wav'' then demo_train_X
                              else if c = ''b.wav'' then demo_second_X else demo_X))\<rparr>"

definition demo_core :: "(string, int list) motif_core" where
  "demo_core =
     \<lparr>CONTOUR_EXTRACTOR_REGISTRY = [''salamon'' \<mapsto> Inr demo_extractor],
      FEATURE_EXTRACTOR_REGISTRY = [''bitteli'' \<mapsto> Inr demo_features],
      CONTOUR_CLASSIFIER_REGISTRY =
        [''mv_gaussian'' \<mapsto> Inr (MvGaussian mv_gaussian_init),
         ''random_forest'' \<mapsto> Inr (RandomForest random_forest_default)],
      compute_labels = (\<lambda>c a. Inr a),
      score = (\<lambda>c Y_pred Y_true y_prob.
                 if 0 \<in> set Y_true \<and> 1 \<in> set Y_true
                 then Inr [''samples'' \<mapsto> real (length Y_true)]
                 else Inl ValueError)\<rparr>"

definition demo_registry :: "string \<rightharpoonup> classifier factory" where
  "demo_registry =
     [''mv_gaussian'' \<mapsto> Inr (MvGaussian mv_gaussian_init), ''broken'' \<mapsto> Inl KeyError]"

definition demo_start :: run_state where
  "demo_start = \<lparr>constructed = 0, contour_classifier = None, calls = []\<rparr>"

definition demo_fitted_state :: run_state where
  "demo_fitted_state =
     \<lparr>constructed = 3, contour_classifier = Some (MvGaussian demo_trained), calls = []\<rparr>"

definition demo_all_X :: matrix where
  "demo_all_X = \<lparr>ncols = 1, rows = [[0], [1], [2], [3]]\<rparr>"

definition demo_single :: mv_gaussian where
  "demo_single =
     \<lparr>rv_pos = Some \<lparr>rv_mean = [1 / 2], rv_cov = [], density = (\<lambda>x. if x = [1 / 2] then 1 else 0)\<rparr>,
      rv_neg = Some \<lparr>rv_mean = [0], rv_cov = [], density = (\<lambda>x. if x = [0] then 1 else 0)\<rparr>,
      n_feats = Some 1, lmbda = Some [1]\<rparr>"

section \<open>Properties\<close>

lemma upt2: "[0..<2] = [0, 1]"
  by (simp add: upt_conv_Cons)

lemma upt3: "[0..<3] = [0, 1, 2]"
  by (simp add: upt_conv_Cons)






















lemma demo_mvg_fit:
  "mvg_fit demo_numerics mv_gaussian_init demo_train_X demo_train_Y = (demo_trained, Inr ())"
  by (simp add: mvg_fit_def fit_boxcox_def mv_gaussian_init_def demo_train_X_def demo_train_Y_def
      demo_numerics_def demo_trained_def zeros_like_def nrows_def bindE_def get_col_def
      set_col_def EPS_def take_rows_def where_idx_def Let_def)



lemma bindE_Inr: "bindE m f = Inr y \<longleftrightarrow> (\<exists>x. m = Inr x \<and> f x = Inr y)"
  by (cases m) (simp_all add: bindE_def)









lemma fit_boxcox_cases:
  "fit_boxcox np self X = (self', r) \<Longrightarrow>
   (\<exists>e. r = Inl e \<and> self' = self\<lparr>n_feats := Some (ncols X)\<rparr>) \<or>
   (\<exists>B l. r = Inr B \<and> self' = self\<lparr>n_feats := Some (ncols X), lmbda := Some l\<rparr> \<and>
      fit_boxcox_loop np X [0..<ncols X] (zeros_like X) (replicate (ncols X) 0) = Inr (B, l))"
  by (auto simp: fit_boxcox_def Let_def split: sum.splits prod.splits)

lemma mvg_fit_success:
  assumes "mvg_fit np self X Y = (self', Inr u)"
  shows "\<exists>B l rvp rvn.
           fit_boxcox_loop np X [0..<ncols X] (zeros_like X) (replicate (ncols X) 0) = Inr (B, l) \<and>
           self' = \<lparr>rv_pos = Some rvp, rv_neg = Some rvn, n_feats = Some (ncols X), lmbda = Some l\<rparr>"
  using assms
  by (cases self) (auto simp: mvg_fit_def fit_boxcox_def Let_def split: sum.splits prod.splits)

lemma wf_zeros_like: "wf_matrix (zeros_like X)"
  by (simp add: wf_matrix_def zeros_like_def list_all_iff)

lemma col_of_set_col_same:
  "list_all (\<lambda>r. i < length r) rs \<Longrightarrow> length v = length rs \<Longrightarrow>
   map (\<lambda>r. r ! i) (map2 (\<lambda>r x. r[i := x]) rs v) = v"
proof (induction rs arbitrary: v)
  case Nil
  then show ?case by simp
next
  case (Cons r rs)
  then show ?case by (cases v) simp_all
qed

lemma col_of_set_col_other:
  "j \<noteq> i \<Longrightarrow> length v = length rs \<Longrightarrow>
   map (\<lambda>r. r ! j) (map2 (\<lambda>r x. r[i := x]) rs v) = map (\<lambda>r. r ! j) rs"
proof (induction rs arbitrary: v)
  case Nil
  then show ?case by simp
next
  case (Cons r rs)
  then show ?case by (cases v) simp_all
qed

lemma set_col_props:
  assumes "set_col B i v = Inr B'" and "wf_matrix B"
  shows "wf_matrix B'" and "ncols B' = ncols B" and "nrows B' = nrows B"
    and "map (\<lambda>r. r ! i) (rows B') = v"
    and "j \<noteq> i \<Longrightarrow> map (\<lambda>r. r ! j) (rows B') = map (\<lambda>r. r ! j) (rows B)"
proof -
  from assms(1) have i: "i < ncols B" and len: "length v = length (rows B)"
    and B': "B' = B\<lparr>rows := map2 (\<lambda>r x. r[i := x]) (rows B) v\<rparr>"
    by (auto simp: set_col_def nrows_def split: if_splits)
  have all: "list_all (\<lambda>r. i < length r) (rows B)"
    using assms(2) i by (auto simp: wf_matrix_def list_all_iff)
  show "wf_matrix B'"
    using assms(2) by (auto simp: B' wf_matrix_def list_all_iff dest!: set_zip_leftD)
  show "ncols B' = ncols B" by (simp add: B')
  show "nrows B' = nrows B" using len by (simp add: B' nrows_def)
  show "map (\<lambda>r. r ! i) (rows B') = v"
    using col_of_set_col_same [OF all len] by (simp add: B')
  show "map (\<lambda>r. r ! j) (rows B') = map (\<lambda>r. r ! j) (rows B)" if "j \<noteq> i"
    using col_of_set_col_other [OF that len] by (simp add: B')
qed

lemma transform_loop_columns:
  assumes "transform_loop np (Some l) X idx B = Inr T" and "wf_matrix B" and "distinct idx"
  shows "wf_matrix T \<and> ncols T = ncols B \<and> nrows T = nrows B \<and>
         (\<forall>i \<in> set idx. i < ncols X \<and> i < length l \<and>
            boxcox_lmbda np (map (\<lambda>x. x + EPS) (map (\<lambda>r. r ! i) (rows X))) (l ! i)
              = Inr (map (\<lambda>r. r ! i) (rows T))) \<and>
         (\<forall>j. j \<notin> set idx \<longrightarrow> map (\<lambda>r. r ! j) (rows T) = map (\<lambda>r. r ! j) (rows B))"
  using assms
proof (induction idx arbitrary: B)
  case Nil
  then show ?case by simp
next
  case (Cons i idx)
  from Cons.prems(1) obtain v B' where
    i: "i < ncols X" "i < length l"
    and bc: "boxcox_lmbda np (map (\<lambda>x. x + EPS) (map (\<lambda>r. r ! i) (rows X))) (l ! i) = Inr v"
    and sc: "set_col B i v = Inr B'"
    and rest: "transform_loop np (Some l) X idx B' = Inr T"
    by (auto simp: bindE_Inr get_col_def split: if_splits)
  note P = set_col_props [OF sc Cons.prems(2)]
  have d: "distinct idx" and ni: "i \<notin> set idx" using Cons.prems(3) by simp_all
  note IH = Cons.IH [OF rest P(1) d]
  have coli: "map (\<lambda>r. r ! i) (rows T) = v"
    using IH ni P(4) by simp
  have other: "map (\<lambda>r. r ! j) (rows T) = map (\<lambda>r. r ! j) (rows B)" if "j \<notin> set (i # idx)" for j
    using IH that P(5) [of j] by simp
  show ?case
    using IH P(2,3) i bc coli other by auto
qed

lemma fit_boxcox_loop_lmbda:
  assumes "fit_boxcox_loop np X idx B l0 = Inr (B', l)" and "distinct idx"
  shows "length l = length l0 \<and>
         (\<forall>i \<in> set idx. \<exists>v. boxcox_mle np (map (\<lambda>x. x + EPS) (map (\<lambda>r. r ! i) (rows X))) = Inr (v, l ! i)) \<and>
         (\<forall>j. j \<notin> set idx \<longrightarrow> l ! j = l0 ! j)"
  using assms
proof (induction idx arbitrary: B l0)
  case Nil
  then show ?case by simp
next
  case (Cons i idx)
  from Cons.prems(1) obtain v p B1 where
    i: "i < ncols X" "i < length l0"
    and bc: "boxcox_mle np (map (\<lambda>x. x + EPS) (map (\<lambda>r. r ! i) (rows X))) = Inr (v, p)"
    and rest: "fit_boxcox_loop np X idx B1 (l0[i := p]) = Inr (B', l)"
    by (auto simp: bindE_Inr get_col_def split: if_splits prod.splits)
  have d: "distinct idx" and ni: "i \<notin> set idx" using Cons.prems(2) by simp_all
  note IH = Cons.IH [OF rest d]
  have "l ! i = p" using IH ni i by simp
  then show ?case
    using IH bc by (auto simp: nth_list_update)
qed






lemma mvg_predict_state: "fst (mvg_predict np m Z) = m"
  by (simp add: mvg_predict_def split: option.splits sum.splits)

lemma rf_predict_state: "fst (rf_predict f Z) = f"
  by (simp add: rf_predict_def split: option.splits)

lemma clf_predict_state: "fst (clf_predict L c Z) = c"
  using mvg_predict_state rf_predict_state
  by (auto simp: clf_predict_def split: classifier.splits prod.splits) (metis fst_conv)+

lemma transform_loop_no_mle:
  "transform_loop (np\<lparr>boxcox_mle := g\<rparr>) lm X idx B = transform_loop np lm X idx B"
  by (induction idx arbitrary: B) (auto simp: bindE_def split: sum.splits option.splits)

lemma transform_no_mle: "transform (np\<lparr>boxcox_mle := g\<rparr>) m Z = transform np m Z"
  by (simp add: transform_def transform_loop_no_mle split: option.splits)

lemma mvg_predict_no_mle: "mvg_predict (np\<lparr>boxcox_mle := g\<rparr>) m Z = mvg_predict np m Z"
  unfolding mvg_predict_def transform_no_mle by (rule refl)

lemma mvg_fit_stores_lmbda:
  assumes "mvg_fit np m0 X Y = (m1, Inr ())"
  shows "n_feats m1 = Some (ncols X) \<and>
     (\<exists>l. lmbda m1 = Some l \<and> length l = ncols X \<and>
        (\<forall>i<ncols X. \<exists>v.
           boxcox_mle np (map (\<lambda>x. x + EPS) (map (\<lambda>r. r ! i) (rows X))) = Inr (v, l ! i)) \<and>
        (\<forall>T. transform np m1 Z = Inr T \<longrightarrow>
           (\<forall>i<ncols X.
              boxcox_lmbda np (map (\<lambda>x. x + EPS) (map (\<lambda>r. r ! i) (rows Z))) (l ! i)
                = Inr (map (\<lambda>r. r ! i) (rows T)))))"
proof -
  from mvg_fit_success [OF assms] obtain B l rvp rvn where
    loop: "fit_boxcox_loop np X [0..<ncols X] (zeros_like X) (replicate (ncols X) 0) = Inr (B, l)"
    and m1: "m1 = \<lparr>rv_pos = Some rvp, rv_neg = Some rvn, n_feats = Some (ncols X), lmbda = Some l\<rparr>"
    by blast
  have fitl: "length l = ncols X"
    "\<forall>i<ncols X. \<exists>v. boxcox_mle np (map (\<lambda>x. x + EPS) (map (\<lambda>r. r ! i) (rows X))) = Inr (v, l ! i)"
    using fit_boxcox_loop_lmbda [OF loop] by simp_all
  have use: "boxcox_lmbda np (map (\<lambda>x. x + EPS) (map (\<lambda>r. r ! i) (rows Z))) (l ! i)
                = Inr (map (\<lambda>r. r ! i) (rows T))"
    if T: "transform np m1 Z = Inr T" and i: "i < ncols X" for T i
  proof -
    have "transform_loop np (Some l) Z [0..<ncols X] (zeros_like Z) = Inr T"
      using T by (simp add: transform_def m1)
    from transform_loop_columns [OF this wf_zeros_like] i show ?thesis by simp
  qed
  show ?thesis using fitl use by (auto simp: m1)
qed

text \<open>
  C7. \<open>predict\<close> (and \<open>predict_discrete_label\<close>) returns the object it was given,
  so a second call on the same input returns the same result. \<open>MvGaussian.predict\<close>
  does not depend on the Box-Cox fitting routine at all, and after a returned
  \<open>fit\<close> on \<open>X\<close> the stored \<open>lmbda\<close> holds, per column, the parameter that routine
  chose for the column of \<open>X\<close> plus \<open>EPS\<close>, and column \<open>i\<close> of the transform of \<open>Z\<close> is
  \<open>boxcox\<close> of column \<open>i\<close> of \<open>Z\<close> plus \<open>EPS\<close> with the stored \<open>lmbda[i]\<close>.
\<close>

theorem predict_frame:
  "fst (clf_predict L c Z) = c \<and>
   snd (clf_predict L (fst (clf_predict L c Z)) Z) = snd (clf_predict L c Z) \<and>
   fst (rf_predict_discrete_label f Z) = f \<and>
   mvg_predict (np\<lparr>boxcox_mle := g\<rparr>) m Z = mvg_predict np m Z \<and>
   (\<forall>m0 m1 X Y. mvg_fit np m0 X Y = (m1, Inr ()) \<longrightarrow>
      n_feats m1 = Some (ncols X) \<and>
      (\<exists>l. lmbda m1 = Some l \<and> length l = ncols X \<and>
         (\<forall>i<ncols X. \<exists>v.
            boxcox_mle np (map (\<lambda>x. x + EPS) (map (\<lambda>r. r ! i) (rows X))) = Inr (v, l ! i)) \<and>
         (\<forall>T. transform np m1 Z = Inr T \<longrightarrow>
            (\<forall>i<ncols X.
               boxcox_lmbda np (map (\<lambda>x. x + EPS) (map (\<lambda>r. r ! i) (rows Z))) (l ! i)
                 = Inr (map (\<lambda>r. r ! i) (rows T))))))"
proof -
  have a: "fst (clf_predict L c Z) = c" by (rule clf_predict_state)
  have b: "snd (clf_predict L (fst (clf_predict L c Z)) Z) = snd (clf_predict L c Z)"
    by (simp add: a)
  have d: "fst (rf_predict_discrete_label f Z) = f"
    by (simp add: rf_predict_discrete_label_def split: option.splits)
  show ?thesis
    using a b d mvg_predict_no_mle [where np = np and g = g and m = m and Z = Z]
      mvg_fit_stores_lmbda [where np = np and Z = Z]
    by blast
qed

lemma mvg_fit_result_indep: "snd (mvg_fit np m X Y) = snd (mvg_fit np m' X Y)"
  by (simp add: mvg_fit_def fit_boxcox_def Let_def split: sum.splits prod.splits)

lemma mvg_fit_state_indep:
  assumes "mvg_fit np m X Y = (a, Inr ())"
  shows "mvg_fit np m' X Y = (a, Inr ())"
  using assms
  by (cases m, cases m')
     (auto simp: mvg_fit_def fit_boxcox_def Let_def split: sum.splits prod.splits)

lemma rf_fit_keeps_config:
  "n_estimators (fst (rf_fit sk ent f X Y)) = n_estimators f \<and>
   n_jobs (fst (rf_fit sk ent f X Y)) = n_jobs f \<and>
   class_weight (fst (rf_fit sk ent f X Y)) = class_weight f \<and>
   n_iter_search (fst (rf_fit sk ent f X Y)) = n_iter_search f \<and>
   random_state (fst (rf_fit sk ent f X Y)) = random_state f"
  by (simp add: rf_fit_def Let_def split: sum.splits)

lemma rf_fit_replaces:
  assumes "snd (rf_fit sk ent f X Y) = Inr ()"
    and "n_estimators f = n_estimators f'" "n_jobs f = n_jobs f'" "class_weight f = class_weight f'"
     "n_iter_search f = n_iter_search f'" "random_state f = random_state f'"
  shows "rf_fit sk ent f X Y = rf_fit sk ent f' X Y"
  using assms by (cases f, cases f') (auto simp: rf_fit_def Let_def split: sum.splits)

text \<open>
  C8, for a second \<open>fit\<close> that returns: \<open>fit(X1, Y1)\<close> followed by \<open>fit(X2, Y2)\<close>
  leaves the classifier in the state, and with the result, that a freshly
  constructed classifier of the same class and constructor arguments has after
  \<open>fit(X2, Y2)\<close> alone, with the same libraries and the same random source.
\<close>

theorem refit_replaces_state:
  assumes "snd (clf_fit L (fst (clf_fit L c X1 Y1)) X2 Y2) = Inr ()"
  shows "clf_fit L (fst (clf_fit L c X1 Y1)) X2 Y2 = clf_fit L (fresh c) X2 Y2"
proof (cases c)
  case (MvGaussian m)
  let ?m1 = "fst (mvg_fit (numpy L) m X1 Y1)"
  have c1: "fst (clf_fit L c X1 Y1) = MvGaussian ?m1"
    by (simp add: MvGaussian clf_fit_def split: prod.splits)
  have ok: "snd (mvg_fit (numpy L) ?m1 X2 Y2) = Inr ()"
    using assms unfolding c1 by (simp add: clf_fit_def split: prod.splits)
  then obtain a where a: "mvg_fit (numpy L) ?m1 X2 Y2 = (a, Inr ())"
    by (cases "mvg_fit (numpy L) ?m1 X2 Y2") simp
  have "mvg_fit (numpy L) ?m1 X2 Y2 = mvg_fit (numpy L) mv_gaussian_init X2 Y2"
    using mvg_fit_state_indep [OF a, of mv_gaussian_init] a by simp
  then show ?thesis
    unfolding c1 by (simp add: MvGaussian fresh_def clf_fit_def)
next
  case (RandomForest f)
  let ?f1 = "fst (rf_fit (scikit L) (entropy L) f X1 Y1)"
  let ?f0 = "random_forest_init (n_estimators f) (n_jobs f) (class_weight f)
               (n_iter_search f) (random_state f)"
  have c1: "fst (clf_fit L c X1 Y1) = RandomForest ?f1"
    by (simp add: RandomForest clf_fit_def split: prod.splits)
  have ok: "snd (rf_fit (scikit L) (entropy L) ?f1 X2 Y2) = Inr ()"
    using assms unfolding c1 by (simp add: clf_fit_def split: prod.splits)
  have "rf_fit (scikit L) (entropy L) ?f1 X2 Y2 = rf_fit (scikit L) (entropy L) ?f0 X2 Y2"
    using rf_fit_keeps_config [of "scikit L" "entropy L" f X1 Y1]
    by (intro rf_fit_replaces [OF ok]) (simp_all add: random_forest_init_def)
  then show ?thesis
    unfolding c1 by (simp add: RandomForest fresh_def clf_fit_def)
qed

lemma demo_transform_trained:
  "transform demo_numerics demo_trained demo_X = Inr \<lparr>ncols = 1, rows = [[Fin 0], [Fin 1], [Fin 2]]\<rparr>"
  by (simp add: transform_def demo_trained_def demo_X_def demo_numerics_def zeros_like_def
      nrows_def bindE_def get_col_def set_col_def EPS_def)

theorem predict_frame_witness:
  "mvg_fit demo_numerics mv_gaussian_init demo_train_X demo_train_Y = (demo_trained, Inr ()) \<and>
   fst (clf_predict demo_libs (MvGaussian demo_trained) demo_X) = MvGaussian demo_trained \<and>
   snd (clf_predict demo_libs (fst (clf_predict demo_libs (MvGaussian demo_trained) demo_X)) demo_X)
     = snd (clf_predict demo_libs (MvGaussian demo_trained) demo_X) \<and>
   n_feats demo_trained = Some 1 \<and> lmbda demo_trained = Some [1] \<and>
   transform demo_numerics demo_trained demo_X = Inr \<lparr>ncols = 1, rows = [[Fin 0], [Fin 1], [Fin 2]]\<rparr> \<and>
   boxcox_lmbda demo_numerics (map (\<lambda>x. x + EPS) (map (\<lambda>r. r ! 0) (rows demo_X))) 1
     = Inr [Fin 0, Fin 1, Fin 2]"
proof -
  note T = predict_frame [where L = demo_libs and c = "MvGaussian demo_trained" and Z = demo_X
      and np = demo_numerics]
  from T have frame: "fst (clf_predict demo_libs (MvGaussian demo_trained) demo_X) = MvGaussian demo_trained"
    and again: "snd (clf_predict demo_libs (fst (clf_predict demo_libs (MvGaussian demo_trained) demo_X)) demo_X)
     = snd (clf_predict demo_libs (MvGaussian demo_trained) demo_X)"
    by blast+
  from T demo_mvg_fit obtain l where l: "lmbda demo_trained = Some l"
    and use: "\<forall>T. transform demo_numerics demo_trained demo_X = Inr T \<longrightarrow>
            (\<forall>i<ncols demo_train_X.
               boxcox_lmbda demo_numerics (map (\<lambda>x. x + EPS) (map (\<lambda>r. r ! i) (rows demo_X))) (l ! i)
                 = Inr (map (\<lambda>r. r ! i) (rows T)))"
    by blast
  have l1: "l = [1]" using l by (simp add: demo_trained_def)
  have "boxcox_lmbda demo_numerics (map (\<lambda>x. x + EPS) (map (\<lambda>r. r ! 0) (rows demo_X))) 1
     = Inr [Fin 0, Fin 1, Fin 2]"
    using use demo_transform_trained by (auto simp: l1 demo_train_X_def dest!: spec)
  then show ?thesis
    using frame again demo_mvg_fit demo_transform_trained by (simp add: demo_trained_def)
qed

lemma demo_mvg_refit:
  "mvg_fit demo_numerics demo_trained demo_second_X demo_second_Y
     = (\<lparr>rv_pos = Some \<lparr>rv_mean = [3], rv_cov = [], density = (\<lambda>x. if x = [3] then 1 else 0)\<rparr>,
         rv_neg = Some \<lparr>rv_mean = [2], rv_cov = [], density = (\<lambda>x. if x = [2] then 1 else 0)\<rparr>,
         n_feats = Some 1, lmbda = Some [1]\<rparr>, Inr ())"
  by (simp add: mvg_fit_def fit_boxcox_def demo_second_X_def demo_second_Y_def
      demo_numerics_def demo_trained_def zeros_like_def nrows_def bindE_def get_col_def
      set_col_def EPS_def take_rows_def where_idx_def Let_def)

theorem refit_replaces_state_witness:
  "snd (clf_fit demo_libs (fst (clf_fit demo_libs (MvGaussian mv_gaussian_init) demo_train_X demo_train_Y))
          demo_second_X demo_second_Y) = Inr () \<and>
   clf_fit demo_libs (fst (clf_fit demo_libs (MvGaussian mv_gaussian_init) demo_train_X demo_train_Y))
          demo_second_X demo_second_Y
     = clf_fit demo_libs (fresh (MvGaussian mv_gaussian_init)) demo_second_X demo_second_Y"
proof -
  have first: "fst (clf_fit demo_libs (MvGaussian mv_gaussian_init) demo_train_X demo_train_Y)
                 = MvGaussian demo_trained"
    using demo_mvg_fit by (simp add: clf_fit_def demo_libs_def)
  have ok: "snd (clf_fit demo_libs (fst (clf_fit demo_libs (MvGaussian mv_gaussian_init) demo_train_X demo_train_Y))
          demo_second_X demo_second_Y) = Inr ()"
    unfolding first using demo_mvg_refit by (simp add: clf_fit_def demo_libs_def)
  show ?thesis
    using ok refit_replaces_state [OF ok] by simp
qed

text \<open>
  A second \<open>fit\<close> that raises does not replace the state. Here \<open>boxcox\<close> refuses the
  first column of the new data (its entries plus \<open>EPS\<close> are negative), after
  \<open>self.n_feats\<close> was assigned: the object keeps the densities and \<open>lmbda\<close> of the
  first fit beside the new \<open>n_feats\<close>, while a fresh object has \<open>n_feats\<close> alone.
\<close>

theorem refit_counterexample:
  "fst (clf_fit demo_libs (fst (clf_fit demo_libs (MvGaussian mv_gaussian_init) demo_train_X demo_train_Y))
          demo_bad_X demo_train_Y) = MvGaussian (demo_trained\<lparr>n_feats := Some 2\<rparr>) \<and>
   fst (clf_fit demo_libs (fresh (MvGaussian mv_gaussian_init)) demo_bad_X demo_train_Y)
     = MvGaussian (mv_gaussian_init\<lparr>n_feats := Some 2\<rparr>) \<and>
   MvGaussian (demo_trained\<lparr>n_feats := Some 2\<rparr>) \<noteq> MvGaussian (mv_gaussian_init\<lparr>n_feats := Some 2\<rparr>)"
proof -
  have first: "fst (clf_fit demo_libs (MvGaussian mv_gaussian_init) demo_train_X demo_train_Y)
                 = MvGaussian demo_trained"
    using demo_mvg_fit by (simp add: clf_fit_def demo_libs_def)
  have bad: "mvg_fit demo_numerics m demo_bad_X demo_train_Y = (m\<lparr>n_feats := Some 2\<rparr>, Inl ValueError)" for m
    by (simp add: mvg_fit_def fit_boxcox_def demo_bad_X_def demo_numerics_def zeros_like_def
        nrows_def bindE_def get_col_def EPS_def Let_def upt2)
  show ?thesis
    unfolding first
    by (simp add: clf_fit_def demo_libs_def fresh_def bad demo_trained_def mv_gaussian_init_def)
qed

lemma get_module_cases:
  "get_module mid reg n = (n', Inr (Some (i, obj))) \<Longrightarrow>
   i = n \<and> n' = Suc n \<and> (\<exists>name. mid = Some name \<and> reg name = Some (Inr obj))"
  by (auto simp: get_module_def bindE_def split: option.splits sum.splits error.splits)

lemma get_module_count: "n \<le> fst (get_module mid reg n)"
  by (auto simp: get_module_def bindE_def split: option.splits sum.splits error.splits)

text \<open>
  C6. \<open>get_module\<close> with \<open>None\<close> returns None and constructs nothing. With a
  name the registry does not hold it raises the RuntimeError whose message carries
  the name. With a name whose constructor returns, it returns a new instance:
  its number is the count of objects before the call, so it is no earlier object,
  and any instance a later lookup returns has a larger number.
\<close>

theorem get_module_lookup:
  "get_module None reg n = (n, Inr None) \<and>
   (reg name = None \<longrightarrow>
      get_module (Some name) reg n
        = (n, Inl (RuntimeError (''Algorithm '' @ name @ '' can not be found in motif!'')))) \<and>
   (\<forall>obj. reg name = Some (Inr obj) \<longrightarrow>
      get_module (Some name) reg n = (Suc n, Inr (Some (n, obj)))) \<and>
   (\<forall>mid n' i obj. get_module mid reg n = (n', Inr (Some (i, obj))) \<longrightarrow> n \<le> i \<and> i < n') \<and>
   (\<forall>mid. n \<le> fst (get_module mid reg n)) \<and>
   (\<forall>mid mid' reg' m n' m' i obj i' obj'.
      get_module mid reg n = (n', Inr (Some (i, obj))) \<and> n' \<le> m \<and>
      get_module mid' reg' m = (m', Inr (Some (i', obj'))) \<longrightarrow> i < i')"
proof -
  have a: "get_module None reg n = (n, Inr None)"
    by (simp add: get_module_def)
  have b: "get_module (Some name) reg n
        = (n, Inl (RuntimeError (''Algorithm '' @ name @ '' can not be found in motif!'')))"
    if "reg name = None"
    using that by (simp add: get_module_def bindE_def)
  have c: "get_module (Some name) reg n = (Suc n, Inr (Some (n, obj)))"
    if "reg name = Some (Inr obj)" for obj
    using that by (simp add: get_module_def bindE_def)
  have d: "n \<le> i \<and> i < n'" if "get_module mid reg n = (n', Inr (Some (i, obj)))" for mid n' i obj
    using get_module_cases [OF that] by simp
  have e: "i < i'"
    if "get_module mid reg n = (n', Inr (Some (i, obj)))" "n' \<le> m"
       "get_module mid' reg' m = (m', Inr (Some (i', obj')))"
    for mid mid' and reg' :: "string \<rightharpoonup> 'b factory" and m n' m' i obj i' obj'
    using get_module_cases [OF that(1)] get_module_cases [OF that(3)] that(2) by simp
  show ?thesis
    using a b c d e get_module_count [of n _ reg] by blast
qed

text \<open>
  C10. The \<open>try\<close> block covers the constructor call: when the registered
  constructor itself raises KeyError, the lookup raises the "can not be found"
  RuntimeError naming the registered identifier.
\<close>

theorem get_module_factory_keyerror:
  assumes "reg name = Some (Inl KeyError)"
  shows "get_module (Some name) reg n
           = (n, Inl (RuntimeError (''Algorithm '' @ name @ '' can not be found in motif!'')))"
  using assms by (simp add: get_module_def bindE_def)

lemma get_module_factory_other:
  assumes "reg name = Some (Inl e)" and "e \<noteq> KeyError"
  shows "get_module (Some name) reg n = (n, Inl e)"
  using assms by (cases e) (simp_all add: get_module_def bindE_def)

lemma call_predict_Some:
  "contour_classifier s = Some c \<Longrightarrow>
   call_predict L X s = (s\<lparr>calls := calls s @ [Predict X]\<rparr>, snd (clf_predict L c X))"
  using clf_predict_state [of L c X]
  by (cases "clf_predict L c X") (simp add: call_predict_def)

lemma call_predict_None:
  "contour_classifier s = None \<Longrightarrow> call_predict L X s = (s, Inl AttributeError)"
  by (simp add: call_predict_def)

lemma call_predict_frame:
  assumes "call_predict L X s = (s', r)"
  shows "contour_classifier s' = contour_classifier s \<and> constructed s' = constructed s \<and>
         (\<exists>Xs. calls s' = calls s @ map Predict Xs)"
proof (cases "contour_classifier s")
  case None
  then show ?thesis using assms by (auto simp: call_predict_None)
next
  case (Some c)
  from assms have s': "s' = s\<lparr>calls := calls s @ [Predict X]\<rparr>"
    by (simp add: call_predict_Some [OF Some])
  have "calls s' = calls s @ map Predict [X]" by (simp add: s')
  then show ?thesis
    unfolding s' by (intro conjI exI [of _ "[X]"]) simp_all
qed

lemma audio_loop_frame:
  "audio_loop L ex fe files acc s = (s', r) \<Longrightarrow>
   contour_classifier s' = contour_classifier s \<and> constructed s' = constructed s \<and>
   (\<exists>Xs. calls s' = calls s @ map Predict Xs)"
proof (induction files arbitrary: acc s)
  case Nil
  then show ?case by (auto simp: returnS_def intro: exI [of _ "[]"])
next
  case (Cons f files)
  let ?c = "case ex of None \<Rightarrow> Inl AttributeError | Some e \<Rightarrow> compute_contours e f"
  show ?case
  proof (cases ?c)
    case (Inl e)
    then show ?thesis
      using Cons.prems by (auto simp: bindS_def liftE_def intro: exI [of _ "[]"])
  next
    case ctr: (Inr ctr)
    let ?x = "case fe of None \<Rightarrow> Inl AttributeError | Some g \<Rightarrow> compute_all g ctr"
    show ?thesis
    proof (cases ?x)
      case (Inl e)
      then show ?thesis
        using Cons.prems ctr by (auto simp: bindS_def liftE_def intro: exI [of _ "[]"])
    next
      case X: (Inr X)
      obtain s1 r1 where cp: "call_predict L X s = (s1, r1)" by (cases "call_predict L X s") auto
      note F = call_predict_frame [OF cp]
      show ?thesis
      proof (cases r1)
        case (Inl e)
        then show ?thesis
          using Cons.prems ctr X cp F by (auto simp: bindS_def liftE_def)
      next
        case (Inr Y)
        then have rest: "audio_loop L ex fe files (acc @ [(ctr, X, Y)]) s1 = (s', r)"
          using Cons.prems ctr X cp by (simp add: bindS_def liftE_def)
        from Cons.IH [OF rest] F show ?thesis
          by (auto simp: map_append [symmetric] simp del: map_append)
      qed
    qed
  qed
qed

lemma audio_loop_result:
  "audio_loop L ex fe files acc s = (s', Inr trips) \<Longrightarrow>
   \<exists>new. trips = acc @ new \<and> length new = length files \<and>
     (\<forall>i<length files. \<exists>e g c ctr X Y.
        ex = Some e \<and> fe = Some g \<and> contour_classifier s = Some c \<and>
        compute_contours e (files ! i) = Inr ctr \<and> compute_all g ctr = Inr X \<and>
        snd (clf_predict L c X) = Inr Y \<and> new ! i = (ctr, X, Y))"
proof (induction files arbitrary: acc s)
  case Nil
  then show ?case by (simp add: returnS_def)
next
  case (Cons f files)
  from Cons.prems obtain e ctr where ex: "ex = Some e" and ctr: "compute_contours e f = Inr ctr"
    by (auto simp: bindS_def liftE_def split: option.splits sum.splits)
  from Cons.prems ex ctr obtain g X where fe: "fe = Some g" and X: "compute_all g ctr = Inr X"
    by (auto simp: bindS_def liftE_def split: option.splits sum.splits)
  from Cons.prems ex ctr fe X obtain s1 Y where cp: "call_predict L X s = (s1, Inr Y)"
    and rest: "audio_loop L ex fe files (acc @ [(ctr, X, Y)]) s1 = (s', Inr trips)"
    by (auto simp: bindS_def liftE_def split: sum.splits prod.splits)
  from cp obtain c where c: "contour_classifier s = Some c"
    by (cases "contour_classifier s") (auto simp: call_predict_None)
  have Y: "snd (clf_predict L c X) = Inr Y" and s1: "contour_classifier s1 = Some c"
    using cp c by (auto simp: call_predict_Some [OF c])
  from Cons.IH [OF rest] obtain new where
    new: "trips = (acc @ [(ctr, X, Y)]) @ new" "length new = length files"
    and each: "\<forall>i<length files. \<exists>e g c ctr X Y.
        ex = Some e \<and> fe = Some g \<and> contour_classifier s1 = Some c \<and>
        compute_contours e (files ! i) = Inr ctr \<and> compute_all g ctr = Inr X \<and>
        snd (clf_predict L c X) = Inr Y \<and> new ! i = (ctr, X, Y)"
    by blast
  have "\<exists>e g c ctr' X' Y'.
        ex = Some e \<and> fe = Some g \<and> contour_classifier s = Some c \<and>
        compute_contours e ((f # files) ! i) = Inr ctr' \<and> compute_all g ctr' = Inr X' \<and>
        snd (clf_predict L c X') = Inr Y' \<and> ((ctr, X, Y) # new) ! i = (ctr', X', Y')"
    if "i < length (f # files)" for i
  proof (cases i)
    case 0
    then show ?thesis using ex fe c ctr X Y by simp
  next
    case (Suc j)
    then have "j < length files" using that by simp
    with each s1 c Suc show ?thesis by auto
  qed
  then show ?case
    using new by (intro exI [of _ "(ctr, X, Y) # new"]) simp
qed

lemma audio_loop_total:
  assumes "ex = Some e" and "fe = Some g"
  shows "contour_classifier s = Some c \<Longrightarrow>
   \<forall>f \<in> set files. \<exists>ctr X Y. compute_contours e f = Inr ctr \<and> compute_all g ctr = Inr X \<and>
      snd (clf_predict L c X) = Inr Y \<Longrightarrow>
   \<exists>s' trips. audio_loop L ex fe files acc s = (s', Inr trips)"
proof (induction files arbitrary: acc s)
  case Nil
  then show ?case by (simp add: returnS_def)
next
  case (Cons f files)
  from Cons.prems(2) obtain ctr X Y where
    st: "compute_contours e f = Inr ctr" "compute_all g ctr = Inr X" "snd (clf_predict L c X) = Inr Y"
    by auto
  let ?s1 = "s\<lparr>calls := calls s @ [Predict X]\<rparr>"
  have c1: "contour_classifier ?s1 = Some c" using Cons.prems(1) by simp
  have rest: "\<forall>f \<in> set files. \<exists>ctr X Y. compute_contours e f = Inr ctr \<and> compute_all g ctr = Inr X \<and>
      snd (clf_predict L c X) = Inr Y"
    using Cons.prems(2) by simp
  from Cons.IH [OF c1 rest, of "acc @ [(ctr, X, Y)]"] show ?case
    using st assms by (simp add: bindS_def liftE_def call_predict_Some [OF Cons.prems(1)])
qed

text \<open>
  C9. \<open>process_audio_only\<close> leaves the classifier's attributes as they were and
  calls nothing but \<open>predict\<close> on it. When it returns, the list has one triple per
  file, in the order of the files: the file's contour, its features and the scores
  \<open>predict\<close> gives on them. It returns whenever extraction, features and
  \<open>predict\<close> succeed on every file.
\<close>

theorem process_audio_only_triples:
  "\<exists>s' r. process_audio_only L ex fe files s = (s', r) \<and>
     contour_classifier s' = contour_classifier s \<and> constructed s' = constructed s \<and>
     (\<exists>Xs. calls s' = calls s @ map Predict Xs) \<and>
     (\<forall>trips. r = Inr trips \<longrightarrow>
        length trips = length files \<and>
        (\<forall>i<length files. \<exists>e g c ctr X Y.
           ex = Some e \<and> fe = Some g \<and> contour_classifier s = Some c \<and>
           compute_contours e (files ! i) = Inr ctr \<and> compute_all g ctr = Inr X \<and>
           snd (clf_predict L c X) = Inr Y \<and> trips ! i = (ctr, X, Y))) \<and>
     ((\<exists>e g c. ex = Some e \<and> fe = Some g \<and> contour_classifier s = Some c \<and>
         (\<forall>f \<in> set files. \<exists>ctr X Y. compute_contours e f = Inr ctr \<and>
            compute_all g ctr = Inr X \<and> snd (clf_predict L c X) = Inr Y))
      \<longrightarrow> (\<exists>trips. r = Inr trips))"
proof -
  obtain s' r where run: "audio_loop L ex fe files [] s = (s', r)"
    by (cases "audio_loop L ex fe files [] s") auto
  note F = audio_loop_frame [OF run]
  have R: "length trips = length files \<and>
        (\<forall>i<length files. \<exists>e g c ctr X Y.
           ex = Some e \<and> fe = Some g \<and> contour_classifier s = Some c \<and>
           compute_contours e (files ! i) = Inr ctr \<and> compute_all g ctr = Inr X \<and>
           snd (clf_predict L c X) = Inr Y \<and> trips ! i = (ctr, X, Y))" if "r = Inr trips" for trips
    using audio_loop_result [of L ex fe files "[]" s s' trips] run that by auto
  have T: "\<exists>trips. r = Inr trips"
    if "\<exists>e g c. ex = Some e \<and> fe = Some g \<and> contour_classifier s = Some c \<and>
         (\<forall>f \<in> set files. \<exists>ctr X Y. compute_contours e f = Inr ctr \<and>
            compute_all g ctr = Inr X \<and> snd (clf_predict L c X) = Inr Y)"
  proof -
    from that obtain e g c where h: "ex = Some e" "fe = Some g" "contour_classifier s = Some c"
      "\<forall>f \<in> set files. \<exists>ctr X Y. compute_contours e f = Inr ctr \<and>
            compute_all g ctr = Inr X \<and> snd (clf_predict L c X) = Inr Y"
      by blast
    from audio_loop_total [OF h(1,2,3,4), of "[]"] run show ?thesis by auto
  qed
  show ?thesis
    unfolding process_audio_only_def run
    using F R T by (intro exI [of _ s'] exI [of _ r]) blast
qed

lemma labels_loop_result:
  "labels_loop core ex fe tp cs0 Xs0 Ys0 = Inr (cs, Xs, Ys) \<Longrightarrow>
   \<exists>cs' Xs' Ys'. cs = cs0 @ cs' \<and> Xs = Xs0 @ Xs' \<and> Ys = Ys0 @ Ys' \<and>
     length cs' = length tp \<and> length Xs' = length tp \<and> length Ys' = length tp \<and>
     (\<forall>i<length tp. \<exists>e g.
        ex = Some e \<and> fe = Some g \<and>
        compute_contours e (fst (tp ! i)) = Inr (cs' ! i) \<and>
        compute_labels core (cs' ! i) (snd (tp ! i)) = Inr (Ys' ! i) \<and>
        compute_all g (cs' ! i) = Inr (Xs' ! i))"
proof (induction tp arbitrary: cs0 Xs0 Ys0)
  case Nil
  then show ?case by simp
next
  case (Cons p tp)
  obtain f a where p: "p = (f, a)" by (cases p)
  from Cons.prems p obtain e ctr where ex: "ex = Some e" and ctr: "compute_contours e f = Inr ctr"
    by (auto simp: bindE_Inr split: option.splits)
  from Cons.prems p ex ctr obtain Y where Y: "compute_labels core ctr a = Inr Y"
    by (auto simp: bindE_Inr)
  from Cons.prems p ex ctr Y obtain g X where fe: "fe = Some g" and X: "compute_all g ctr = Inr X"
    by (auto simp: bindE_Inr split: option.splits)
  have rest: "labels_loop core ex fe tp (cs0 @ [ctr]) (Xs0 @ [X]) (Ys0 @ [Y]) = Inr (cs, Xs, Ys)"
    using Cons.prems p ex ctr Y fe X by (simp add: bindE_def)
  from Cons.IH [OF rest] obtain cs' Xs' Ys' where
    eq: "cs = (cs0 @ [ctr]) @ cs'" "Xs = (Xs0 @ [X]) @ Xs'" "Ys = (Ys0 @ [Y]) @ Ys'"
    and len: "length cs' = length tp" "length Xs' = length tp" "length Ys' = length tp"
    and each: "\<forall>i<length tp. \<exists>e g.
        ex = Some e \<and> fe = Some g \<and>
        compute_contours e (fst (tp ! i)) = Inr (cs' ! i) \<and>
        compute_labels core (cs' ! i) (snd (tp ! i)) = Inr (Ys' ! i) \<and>
        compute_all g (cs' ! i) = Inr (Xs' ! i)"
    by blast
  have "\<exists>e g. ex = Some e \<and> fe = Some g \<and>
        compute_contours e (fst ((p # tp) ! i)) = Inr ((ctr # cs') ! i) \<and>
        compute_labels core ((ctr # cs') ! i) (snd ((p # tp) ! i)) = Inr ((Y # Ys') ! i) \<and>
        compute_all g ((ctr # cs') ! i) = Inr ((X # Xs') ! i)"
    if "i < length (p # tp)" for i
  proof (cases i)
    case 0
    then show ?thesis using p ex fe ctr Y X by simp
  next
    case (Suc j)
    then have "j < length tp" using that by simp
    with each Suc show ?thesis by simp
  qed
  then show ?case
    using eq len
    by (intro exI [of _ "ctr # cs'"] exI [of _ "X # Xs'"] exI [of _ "Y # Ys'"]) simp
qed

lemma concatenate_rows:
  "concatenate Xs = Inr X \<Longrightarrow> Xs \<noteq> [] \<and> rows X = concat (map rows Xs)"
  by (auto simp: concatenate_def split: list.splits if_splits)

lemma aligned_rows:
  "list_all2 (\<lambda>Xi Yi. nrows Xi = length Yi) Xs Ys \<Longrightarrow>
   length (concat (map rows Xs)) = sum_list (map length Ys) \<and>
   length (concat Ys) = sum_list (map length Ys)"
  by (induction rule: list_all2_induct) (simp_all add: nrows_def)

lemma process_with_labels_concat:
  assumes loop: "labels_loop core ex fe tp [] [] [] = Inr (cs, Xs, Ys)"
    and cat: "concatenate Xs = Inr X"
  shows "process_with_labels core ex fe tp = Inr (X, concat Ys, cs)"
proof -
  from labels_loop_result [OF loop] have "length Xs = length Ys" by auto
  moreover have "Xs \<noteq> []" using concatenate_rows [OF cat] by simp
  ultimately have "Ys \<noteq> []" by auto
  then have "concatenate_labels Ys = Inr (concat Ys)"
    by (simp add: concatenate_labels_def split: list.splits)
  then show ?thesis
    using loop cat by (simp add: process_with_labels_def bindE_def)
qed

lemma call_fit_Some:
  "contour_classifier s = Some c \<Longrightarrow>
   call_fit L X Y s =
     (s\<lparr>contour_classifier := Some (fst (clf_fit L c X Y)), calls := calls s @ [Fit X Y]\<rparr>,
      snd (clf_fit L c X Y))"
  by (cases "clf_fit L c X Y") (simp add: call_fit_def)

lemma call_predict_fits:
  "call_predict L X s = (s', r) \<Longrightarrow>
   filter is_fit (calls s') = filter is_fit (calls s) \<and>
   (contour_classifier s = None) = (contour_classifier s' = None)"
  by (cases "contour_classifier s")
     (auto simp: call_predict_None call_predict_Some)

lemma call_score_fits:
  "call_score core P Y prob s = (s', r) \<Longrightarrow> filter is_fit (calls s') = filter is_fit (calls s)"
  by (cases "contour_classifier s") (auto simp: call_score_def)

lemma read_threshold_state: "read_threshold s = (s', r) \<Longrightarrow> s' = s"
  by (cases "contour_classifier s") (auto simp: read_threshold_def)

lemma training_block_fits:
  assumes pwl: "process_with_labels core ex fe tp = Inr (X, Y, cs)"
    and c: "contour_classifier s = Some c"
    and run: "training_block L core ex fe tp s = (s', r)"
  shows "filter is_fit (calls s') = filter is_fit (calls s) @ [Fit X Y]"
proof -
  let ?s1 = "s\<lparr>contour_classifier := Some (fst (clf_fit L c X Y)), calls := calls s @ [Fit X Y]\<rparr>"
  have s1: "filter is_fit (calls ?s1) = filter is_fit (calls s) @ [Fit X Y]" by simp
  show ?thesis
  proof (cases "snd (clf_fit L c X Y)")
    case (Inl e)
    then show ?thesis
      using run by (auto simp: training_block_def bindS_def liftE_def pwl call_fit_Some [OF c])
  next
    case (Inr u)
    obtain s2 r2 where p: "call_predict L X ?s1 = (s2, r2)" by (cases "call_predict L X ?s1") auto
    note P = call_predict_fits [OF p]
    show ?thesis
    proof (cases r2)
      case (Inl e)
      then show ?thesis
        using run Inr p P s1
        by (simp add: training_block_def bindS_def liftE_def pwl call_fit_Some [OF c])
    next
      case Yp: (Inr Yp)
      obtain s3 r3 where t: "read_threshold s2 = (s3, r3)" by (cases "read_threshold s2") auto
      have s3: "s3 = s2" using read_threshold_state [OF t] .
      show ?thesis
      proof (cases r3)
        case (Inl e)
        then show ?thesis
          using run Inr p P s1 Yp t s3
          by (simp add: training_block_def bindS_def liftE_def pwl call_fit_Some [OF c])
      next
        case th: (Inr th)
        obtain s4 r4 where sc: "call_score core (discretize th Yp) Y (Some Yp) s2 = (s4, r4)"
          by (cases "call_score core (discretize th Yp) Y (Some Yp) s2") auto
        note S = call_score_fits [OF sc]
        show ?thesis
          using run Inr p P s1 Yp t s3 th sc S
          by (auto simp: training_block_def bindS_def liftE_def returnS_def pwl
              call_fit_Some [OF c] split: sum.splits)
      qed
    qed
  qed
qed

lemma testing_block_fits:
  assumes "testing_block L core ex fe tsp s = (s', r)"
  shows "filter is_fit (calls s') = filter is_fit (calls s)"
proof (cases "process_with_labels core ex fe tsp")
  case (Inl e)
  then show ?thesis using assms by (simp add: testing_block_def bindS_def liftE_def)
next
  case (Inr t)
  obtain X Y cs where t: "t = (X, Y, cs)" by (cases t)
  obtain s1 r1 where p: "call_predict L X s = (s1, r1)" by (cases "call_predict L X s") auto
  note P = call_predict_fits [OF p]
  show ?thesis
  proof (cases r1)
    case (Inl e)
    then show ?thesis
      using assms Inr t p P by (simp add: testing_block_def bindS_def liftE_def)
  next
    case Yp: (Inr Yp)
    obtain s2 r2 where sc: "call_score core Yp Y None s1 = (s2, r2)"
      by (cases "call_score core Yp Y None s1") auto
    note S = call_score_fits [OF sc]
    show ?thesis
      using assms Inr t p P Yp sc S
      by (auto simp: testing_block_def bindS_def liftE_def split: sum.splits error.splits)
  qed
qed

lemma process_audio_only_fits:
  assumes "process_audio_only L ex fe files s = (s', r)"
  shows "filter is_fit (calls s') = filter is_fit (calls s)"
proof -
  from audio_loop_frame [OF assms [unfolded process_audio_only_def]]
  obtain Xs where "calls s' = calls s @ map Predict Xs" by blast
  moreover have "filter is_fit (map Predict Xs) = []" by (induction Xs) simp_all
  ultimately show ?thesis by simp
qed

lemma optionally_fits:
  assumes "\<And>v s s' r. block v s = (s', r) \<Longrightarrow> filter is_fit (calls s') = filter is_fit (calls s)"
    and "optionally arg block s = (s', r)"
  shows "filter is_fit (calls s') = filter is_fit (calls s)"
proof (cases arg)
  case None
  then show ?thesis using assms(2) by (simp add: optionally_def returnS_def)
next
  case (Some v)
  obtain s1 r1 where b: "block v s = (s1, r1)" by (cases "block v s") auto
  from assms(1) [OF b] show ?thesis
    using assms(2) Some b by (auto simp: optionally_def bindS_def returnS_def split: sum.splits)
qed

lemma bindS_step: "m s = (s', Inr x) \<Longrightarrow> bindS m f s = f x s'"
  by (simp add: bindS_def)

lemma bindS_fail: "m s = (s', Inl e) \<Longrightarrow> bindS m f s = (s', Inl e)"
  by (simp add: bindS_def)

lemma process_unfold:
  assumes "construct (get_extract_module core eid) s0 = (s1, Inr ex)"
    and "construct (get_features_module core fid) s1 = (s2, Inr fe)"
    and "construct (get_classify_module core cid) s2 = (s3, Inr cl)"
  shows "process L core af tp tsp eid fid cid s0 =
     bindS (optionally tp (training_block L core ex fe)) (\<lambda>train.
     bindS (optionally tsp (testing_block L core ex fe)) (\<lambda>test.
     bindS (optionally af (process_audio_only L ex fe)) (\<lambda>audio.
       liftE (return_tuple train test audio))))
     (s3\<lparr>contour_classifier := cl\<rparr>)"
proof -
  have set: "(\<lambda>s. (s\<lparr>contour_classifier := cl\<rparr>, Inr ())) s3 = (s3\<lparr>contour_classifier := cl\<rparr>, Inr ())"
    by simp
  show ?thesis
    unfolding process_def
    by (simp only:
        bindS_step [where m = "construct (get_extract_module core eid)" and s = s0, OF assms(1)]
        bindS_step [where m = "construct (get_features_module core fid)" and s = s1, OF assms(2)]
        bindS_step [where m = "construct (get_classify_module core cid)" and s = s2, OF assms(3)]
        bindS_step [where m = "\<lambda>s. (s\<lparr>contour_classifier := cl\<rparr>, Inr ())" and s = s3, OF set])
qed

lemma construct_calls: "construct g s = (s', r) \<Longrightarrow> calls s' = calls s"
  by (auto simp: construct_def split: prod.splits sum.splits)

lemma bindS_Inr:
  "bindS m f s = (s', Inr y) \<Longrightarrow> \<exists>s1 x. m s = (s1, Inr x) \<and> f x s1 = (s', Inr y)"
  by (auto simp: bindS_def split: prod.splits sum.splits)

lemma optionally_None: "optionally None block s = (s, Inr None)"
  by (simp add: optionally_def returnS_def)

lemma optionally_Some_Inr:
  "block v s = (s', Inr x) \<Longrightarrow> optionally (Some v) block s = (s', Inr (Some x))"
  by (simp add: optionally_def bindS_def returnS_def)

lemma optionally_Some_Inl:
  "block v s = (s', Inl e) \<Longrightarrow> optionally (Some v) block s = (s', Inl e)"
  by (simp add: optionally_def bindS_def)

lemma optionally_Inr_None:
  "optionally arg block s = (s', Inr None) \<Longrightarrow> arg = None"
  by (cases arg) (auto simp: optionally_def bindS_def returnS_def split: prod.splits sum.splits)

lemma optionally_Inr_Some:
  "optionally arg block s = (s', Inr (Some x)) \<Longrightarrow> \<exists>v. arg = Some v \<and> block v s = (s', Inr x)"
  by (cases arg) (auto simp: optionally_def bindS_def returnS_def split: prod.splits sum.splits)

lemma return_tuple_Inr:
  "return_tuple train test audio = Inr r \<Longrightarrow> train \<noteq> None \<and> test \<noteq> None \<and> audio \<noteq> None"
  by (auto simp: return_tuple_def split: option.splits prod.splits)

lemma process_Inr_needs_all:
  assumes "process L core af tp tsp eid fid cid s = (s', Inr r)"
  shows "af \<noteq> None \<and> tp \<noteq> None \<and> tsp \<noteq> None"
proof -
  from assms [unfolded process_def] obtain sa ex where
    "bindS (construct (get_features_module core fid)) (\<lambda>feature_extractor.
     bindS (construct (get_classify_module core cid)) (\<lambda>classifier.
     bindS (\<lambda>s. (s\<lparr>contour_classifier := classifier\<rparr>, Inr ())) (\<lambda>_.
     bindS (optionally tp (training_block L core ex feature_extractor)) (\<lambda>train.
     bindS (optionally tsp (testing_block L core ex feature_extractor)) (\<lambda>test.
     bindS (optionally af (process_audio_only L ex feature_extractor)) (\<lambda>audio.
       liftE (return_tuple train test audio))))))) sa = (s', Inr r)"
    by (blast dest: bindS_Inr)
  then obtain sb fe where
    "bindS (construct (get_classify_module core cid)) (\<lambda>classifier.
     bindS (\<lambda>s. (s\<lparr>contour_classifier := classifier\<rparr>, Inr ())) (\<lambda>_.
     bindS (optionally tp (training_block L core ex fe)) (\<lambda>train.
     bindS (optionally tsp (testing_block L core ex fe)) (\<lambda>test.
     bindS (optionally af (process_audio_only L ex fe)) (\<lambda>audio.
       liftE (return_tuple train test audio)))))) sb = (s', Inr r)"
    by (blast dest: bindS_Inr)
  then obtain sc cl where
    "bindS (\<lambda>s. (s\<lparr>contour_classifier := cl\<rparr>, Inr ())) (\<lambda>_.
     bindS (optionally tp (training_block L core ex fe)) (\<lambda>train.
     bindS (optionally tsp (testing_block L core ex fe)) (\<lambda>test.
     bindS (optionally af (process_audio_only L ex fe)) (\<lambda>audio.
       liftE (return_tuple train test audio))))) sc = (s', Inr r)"
    by (blast dest: bindS_Inr)
  then obtain sd where
    "bindS (optionally tp (training_block L core ex fe)) (\<lambda>train.
     bindS (optionally tsp (testing_block L core ex fe)) (\<lambda>test.
     bindS (optionally af (process_audio_only L ex fe)) (\<lambda>audio.
       liftE (return_tuple train test audio)))) sd = (s', Inr r)"
    by (blast dest: bindS_Inr)
  then obtain s1 train where tr: "optionally tp (training_block L core ex fe) sd = (s1, Inr train)"
    and "bindS (optionally tsp (testing_block L core ex fe)) (\<lambda>test.
     bindS (optionally af (process_audio_only L ex fe)) (\<lambda>audio.
       liftE (return_tuple train test audio))) s1 = (s', Inr r)"
    by (blast dest: bindS_Inr)
  then obtain s2 test where te: "optionally tsp (testing_block L core ex fe) s1 = (s2, Inr test)"
    and "bindS (optionally af (process_audio_only L ex fe)) (\<lambda>audio.
       liftE (return_tuple train test audio)) s2 = (s', Inr r)"
    by (blast dest: bindS_Inr)
  then obtain s3 audio where au: "optionally af (process_audio_only L ex fe) s2 = (s3, Inr audio)"
    and "liftE (return_tuple train test audio) s3 = (s', Inr r)"
    by (blast dest: bindS_Inr)
  then have "return_tuple train test audio = Inr r" by (simp add: liftE_def)
  from return_tuple_Inr [OF this] tr te au show ?thesis
    by (auto dest: optionally_Inr_Some)
qed

text \<open>
  C2. \<open>process\<close> never returns a tuple when one of the three inputs is None: the
  \<open>return\<close> statement reads the variables the skipped block would have assigned.
\<close>

theorem process_subset_raises:
  "snd (process L core af None tsp eid fid cid s) \<noteq> Inr r \<and>
   snd (process L core af tp None eid fid cid s) \<noteq> Inr r \<and>
   snd (process L core None tp tsp eid fid cid s) \<noteq> Inr r"
proof -
  have "snd (process L core a b c eid fid cid s) \<noteq> Inr r" if "a = None \<or> b = None \<or> c = None"
    for a b c
  proof
    assume "snd (process L core a b c eid fid cid s) = Inr r"
    then obtain s' where "process L core a b c eid fid cid s = (s', Inr r)"
      by (cases "process L core a b c eid fid cid s") simp
    from process_Inr_needs_all [OF this] that show False by blast
  qed
  then show ?thesis by blast
qed

lemma rest_fits:
  assumes "bindS (optionally tsp (testing_block L core ex fe)) (\<lambda>test.
           bindS (optionally af (process_audio_only L ex fe)) (\<lambda>audio.
             liftE (return_tuple train test audio))) s = (s', r)"
  shows "filter is_fit (calls s') = filter is_fit (calls s)"
proof -
  obtain s1 r1 where te: "optionally tsp (testing_block L core ex fe) s = (s1, r1)"
    by (cases "optionally tsp (testing_block L core ex fe) s") auto
  have f1: "filter is_fit (calls s1) = filter is_fit (calls s)"
    using optionally_fits [OF _ te] testing_block_fits by blast
  show ?thesis
  proof (cases r1)
    case (Inl e)
    then show ?thesis using assms te f1 by (auto simp: bindS_def)
  next
    case (Inr test)
    obtain s2 r2 where au: "optionally af (process_audio_only L ex fe) s1 = (s2, r2)"
      by (cases "optionally af (process_audio_only L ex fe) s1") auto
    have f2: "filter is_fit (calls s2) = filter is_fit (calls s1)"
      using optionally_fits [OF _ au] process_audio_only_fits by blast
    show ?thesis
      using assms te Inr au f1 f2 by (auto simp: bindS_def liftE_def split: sum.splits)
  qed
qed

text \<open>
  C4. With the modules constructed and every training file processed,
  \<open>process_with_labels\<close> returns the row-wise concatenation of the per-file feature
  matrices and the concatenation of the per-file label vectors, file by file in
  order. When each file's matrix has one row per label, the global matrix has as
  many rows as the label vectors have entries in total, which is the length of the
  global label vector. Over the whole of \<open>process\<close>, \<open>fit\<close> is called once, on that
  matrix and vector.
\<close>

theorem training_concatenates_and_fits_once:
  assumes ex: "construct (get_extract_module core eid) s0 = (s1, Inr ex)"
    and fe: "construct (get_features_module core fid) s1 = (s2, Inr fe)"
    and cl: "construct (get_classify_module core cid) s2 = (s3, Inr (Some c))"
    and loop: "labels_loop core ex fe tp [] [] [] = Inr (cs, Xs, Ys)"
    and cat: "concatenate Xs = Inr X"
    and aligned: "list_all2 (\<lambda>Xi Yi. nrows Xi = length Yi) Xs Ys"
  shows "process_with_labels core ex fe tp = Inr (X, concat Ys, cs) \<and>
     rows X = concat (map rows Xs) \<and>
     nrows X = sum_list (map length Ys) \<and>
     length (concat Ys) = nrows X \<and>
     length Xs = length tp \<and> length Ys = length tp \<and>
     (\<forall>i<length tp. \<exists>e g.
        ex = Some e \<and> fe = Some g \<and>
        compute_contours e (fst (tp ! i)) = Inr (cs ! i) \<and>
        compute_labels core (cs ! i) (snd (tp ! i)) = Inr (Ys ! i) \<and>
        compute_all g (cs ! i) = Inr (Xs ! i)) \<and>
     filter is_fit (calls (fst (process L core af (Some tp) tsp eid fid cid s0)))
       = filter is_fit (calls s0) @ [Fit X (concat Ys)]"
proof -
  have pwl: "process_with_labels core ex fe tp = Inr (X, concat Ys, cs)"
    by (rule process_with_labels_concat [OF loop cat])
  have rows: "rows X = concat (map rows Xs)"
    using concatenate_rows [OF cat] by simp
  have n: "nrows X = sum_list (map length Ys)" "length (concat Ys) = nrows X"
    using aligned_rows [OF aligned] rows by (simp_all add: nrows_def)
  from labels_loop_result [OF loop] have per:
    "length Xs = length tp" "length Ys = length tp"
    "\<forall>i<length tp. \<exists>e g.
        ex = Some e \<and> fe = Some g \<and>
        compute_contours e (fst (tp ! i)) = Inr (cs ! i) \<and>
        compute_labels core (cs ! i) (snd (tp ! i)) = Inr (Ys ! i) \<and>
        compute_all g (cs ! i) = Inr (Xs ! i)"
    by auto
  let ?s = "s3\<lparr>contour_classifier := Some c\<rparr>"
  have calls0: "calls ?s = calls s0"
    using construct_calls [OF ex] construct_calls [OF fe] construct_calls [OF cl] by simp
  obtain sa ra where tb: "training_block L core ex fe tp ?s = (sa, ra)"
    by (cases "training_block L core ex fe tp ?s") auto
  have fa: "filter is_fit (calls sa) = filter is_fit (calls s0) @ [Fit X (concat Ys)]"
    using training_block_fits [OF pwl _ tb] calls0 by simp
  have "filter is_fit (calls (fst (process L core af (Some tp) tsp eid fid cid s0)))
       = filter is_fit (calls sa)"
  proof (cases ra)
    case (Inl e)
    have o: "optionally (Some tp) (training_block L core ex fe) ?s = (sa, Inl e)"
      using tb Inl by (simp add: optionally_def bindS_def)
    show ?thesis
      unfolding process_unfold [OF ex fe cl] by (simp add: bindS_def o)
  next
    case (Inr t)
    let ?rest = "bindS (optionally tsp (testing_block L core ex fe)) (\<lambda>test.
           bindS (optionally af (process_audio_only L ex fe)) (\<lambda>audio.
             liftE (return_tuple (Some t) test audio)))"
    obtain s' r where rest: "?rest sa = (s', r)" by (cases "?rest sa") auto
    have o: "optionally (Some tp) (training_block L core ex fe) ?s = (sa, Inr (Some t))"
      using tb Inr by (simp add: optionally_def bindS_def returnS_def)
    have "process L core af (Some tp) tsp eid fid cid s0 = ?rest sa"
      unfolding process_unfold [OF ex fe cl]
      by (subst bindS_def) (simp add: o)
    then have "process L core af (Some tp) tsp eid fid cid s0 = (s', r)"
      using rest by simp
    then show ?thesis using rest_fits [OF rest] by simp
  qed
  then show ?thesis
    using pwl rows n per fa by simp
qed

text \<open>
  C3. With the modules constructed: when \<open>score\<close> raises in the training block,
  \<open>process\<close> raises the same error, whatever it is. When \<open>score\<close> raises
  ValueError in the testing block, the block yields the empty dictionary, and
  \<open>process\<close>, the inference path returning too, returns a tuple whose test scores
  are the empty dictionary.
\<close>

theorem scoring_failure_handling:
  assumes ex: "construct (get_extract_module core eid) s0 = (s1, Inr ex)"
    and fe: "construct (get_features_module core fid) s1 = (s2, Inr fe)"
    and cl: "construct (get_classify_module core cid) s2 = (s3, Inr cl)"
  shows
   "(\<forall>X Y cs sa sb Yp th sc e.
       process_with_labels core ex fe tp = Inr (X, Y, cs) \<and>
       call_fit L X Y (s3\<lparr>contour_classifier := cl\<rparr>) = (sa, Inr ()) \<and>
       call_predict L X sa = (sb, Inr Yp) \<and>
       read_threshold sb = (sb, Inr th) \<and>
       call_score core (discretize th Yp) Y (Some Yp) sb = (sc, Inl e)
       \<longrightarrow> process L core af (Some tp) tsp eid fid cid s0 = (sc, Inl e)) \<and>
    (\<forall>train s4 Xt Yt tc s5 Yp s6 files s7 trips.
       training_block L core ex fe tp (s3\<lparr>contour_classifier := cl\<rparr>) = (s4, Inr train) \<and>
       process_with_labels core ex fe tsp' = Inr (Xt, Yt, tc) \<and>
       call_predict L Xt s4 = (s5, Inr Yp) \<and>
       call_score core Yp Yt None s5 = (s6, Inl ValueError) \<and>
       process_audio_only L ex fe files s6 = (s7, Inr trips)
       \<longrightarrow> testing_block L core ex fe tsp' s4 = (s6, Inr (Map.empty, tc)) \<and>
           process L core (Some files) (Some tp) (Some tsp') eid fid cid s0
             = (s7, Inr (fst train, Map.empty, snd train, tc, trips)))"
proof -
  let ?s = "s3\<lparr>contour_classifier := cl\<rparr>"
  have A: "process L core af (Some tp) tsp eid fid cid s0 = (sc, Inl e)"
    if "process_with_labels core ex fe tp = Inr (X, Y, cs)"
      "call_fit L X Y ?s = (sa, Inr ())" "call_predict L X sa = (sb, Inr Yp)"
      "read_threshold sb = (sb, Inr th)"
      "call_score core (discretize th Yp) Y (Some Yp) sb = (sc, Inl e)"
    for X Y cs sa sb Yp th sc e
  proof -
    have "training_block L core ex fe tp ?s = (sc, Inl e)"
      using that by (simp add: training_block_def bindS_def liftE_def)
    then have o: "optionally (Some tp) (training_block L core ex fe) ?s = (sc, Inl e)"
      by (simp add: optionally_def bindS_def)
    show ?thesis
      unfolding process_unfold [OF ex fe cl] by (simp add: bindS_def o)
  qed
  have B: "testing_block L core ex fe tsp' s4 = (s6, Inr (Map.empty, tc)) \<and>
           process L core (Some files) (Some tp) (Some tsp') eid fid cid s0
             = (s7, Inr (fst train, Map.empty, snd train, tc, trips))"
    if tr: "training_block L core ex fe tp ?s = (s4, Inr train)"
      and pw: "process_with_labels core ex fe tsp' = Inr (Xt, Yt, tc)"
      and pr: "call_predict L Xt s4 = (s5, Inr Yp)"
      and sc: "call_score core Yp Yt None s5 = (s6, Inl ValueError)"
      and au: "process_audio_only L ex fe files s6 = (s7, Inr trips)"
    for train s4 Xt Yt tc s5 Yp s6 files s7 trips
  proof -
    have te: "testing_block L core ex fe tsp' s4 = (s6, Inr (Map.empty, tc))"
      using pw pr sc by (simp add: testing_block_def bindS_def liftE_def)
    have o1: "optionally (Some tp) (training_block L core ex fe) ?s = (s4, Inr (Some train))"
      using tr by (simp add: optionally_def bindS_def returnS_def)
    have o2: "optionally (Some tsp') (testing_block L core ex fe) s4
                = (s6, Inr (Some (Map.empty, tc)))"
      using te by (simp add: optionally_def bindS_def returnS_def)
    have o3: "optionally (Some files) (process_audio_only L ex fe) s6 = (s7, Inr (Some trips))"
      using au by (simp add: optionally_def bindS_def returnS_def)
    have "process L core (Some files) (Some tp) (Some tsp') eid fid cid s0
             = (s7, return_tuple (Some train) (Some (Map.empty, tc)) (Some trips))"
      unfolding process_unfold [OF ex fe cl]
      by (simp add: bindS_def o1 o2 o3 liftE_def)
    then show ?thesis
      using te by (simp add: return_tuple_def split: prod.splits)
  qed
  show ?thesis using A B by blast
qed

lemma demo_ratio3: "ratio_of [Fin 1, Fin 0, Fin 0] [Fin 0, Fin 1, Fin 0] = [Fin MAX_SCORE, Fin 0, Fin 0]"
  by (simp add: ratio_of_def Let_def where_idx_def put_const_def take_idx_def MAX_SCORE_def
      zero_flt_def upt3)

lemma demo_predict_X:
  "mvg_predict demo_numerics demo_trained demo_X = (demo_trained, Inr [Fin MAX_SCORE, Fin 0, Fin 0])"
  unfolding mvg_predict_def demo_transform_trained
  by (simp add: demo_trained_def pdf_def broadcast_def squeeze_def bindE_def pdf_row_def ratio_lines_def demo_ratio3)

theorem get_module_lookup_witness:
  "get_module None demo_registry 0 = (0, Inr None) \<and>
   demo_registry ''melodia'' = None \<and>
   get_module (Some ''melodia'') demo_registry 0
     = (0, Inl (RuntimeError ''Algorithm melodia can not be found in motif!'')) \<and>
   get_module (Some ''mv_gaussian'') demo_registry 0
     = (1, Inr (Some (0, MvGaussian mv_gaussian_init))) \<and>
   get_module (Some ''mv_gaussian'') demo_registry 1
     = (2, Inr (Some (1, MvGaussian mv_gaussian_init)))"
proof -
  have a: "demo_registry ''melodia'' = None"
    and b: "demo_registry ''mv_gaussian'' = Some (Inr (MvGaussian mv_gaussian_init))"
    by (simp_all add: demo_registry_def)
  note T0 = get_module_lookup [where reg = demo_registry and n = 0 and name = "''melodia''"]
  note T1 = get_module_lookup [where reg = demo_registry and n = 0 and name = "''mv_gaussian''"]
  note T2 = get_module_lookup [where reg = demo_registry and n = 1 and name = "''mv_gaussian''"]
  note c = T0 [THEN conjunct1]
  note d' = T0 [THEN conjunct2, THEN conjunct1, rule_format, OF a]
  note e' = T1 [THEN conjunct2, THEN conjunct2, THEN conjunct1, rule_format, OF b]
  note f' = T2 [THEN conjunct2, THEN conjunct2, THEN conjunct1, rule_format, OF b]
  have d: "get_module (Some ''melodia'') demo_registry 0
     = (0, Inl (RuntimeError ''Algorithm melodia can not be found in motif!''))"
    using d' by simp
  have e: "get_module (Some ''mv_gaussian'') demo_registry 0
     = (1, Inr (Some (0, MvGaussian mv_gaussian_init)))"
    using e' by simp
  have f: "get_module (Some ''mv_gaussian'') demo_registry 1
     = (2, Inr (Some (1, MvGaussian mv_gaussian_init)))"
    using f' by simp
  show ?thesis using a c d e f by simp
qed

theorem get_module_factory_keyerror_witness:
  "demo_registry ''broken'' = Some (Inl KeyError) \<and>
   get_module (Some ''broken'') demo_registry 0
     = (0, Inl (RuntimeError ''Algorithm broken can not be found in motif!''))"
proof -
  have a: "demo_registry ''broken'' = Some (Inl KeyError)"
    by (simp add: demo_registry_def)
  show ?thesis
    using a get_module_factory_keyerror [where reg = demo_registry and name = "''broken''" and n = 0,
        OF a]
    by simp
qed

lemma demo_clf_predict_X:
  "clf_predict demo_libs (MvGaussian demo_trained) demo_X
     = (MvGaussian demo_trained, Inr [Fin MAX_SCORE, Fin 0, Fin 0])"
  by (simp add: clf_predict_def demo_libs_def demo_predict_X)

theorem process_audio_only_triples_witness:
  "\<exists>s'. process_audio_only demo_libs (Some demo_extractor) (Some demo_features)
           [''c.wav'', ''d.wav''] demo_fitted_state
         = (s', Inr [(''c.wav'', demo_X, [Fin MAX_SCORE, Fin 0, Fin 0]), (''d.wav'', demo_X, [Fin MAX_SCORE, Fin 0, Fin 0])]) \<and>
        contour_classifier s' = Some (MvGaussian demo_trained) \<and>
        constructed s' = 3 \<and>
        (\<exists>Xs. calls s' = map Predict Xs)"
proof -
  let ?files = "[''c.wav'', ''d.wav'']"
  from process_audio_only_triples [of demo_libs "Some demo_extractor" "Some demo_features"
      ?files demo_fitted_state]
  obtain s' r where run: "process_audio_only demo_libs (Some demo_extractor) (Some demo_features)
           ?files demo_fitted_state = (s', r)"
    and frame: "contour_classifier s' = contour_classifier demo_fitted_state"
      "constructed s' = constructed demo_fitted_state"
      "\<exists>Xs. calls s' = calls demo_fitted_state @ map Predict Xs"
    and res: "\<forall>trips. r = Inr trips \<longrightarrow>
        length trips = length ?files \<and>
        (\<forall>i<length ?files. \<exists>e g c ctr X Y.
           Some demo_extractor = Some e \<and> Some demo_features = Some g \<and>
           contour_classifier demo_fitted_state = Some c \<and>
           compute_contours e (?files ! i) = Inr ctr \<and> compute_all g ctr = Inr X \<and>
           snd (clf_predict demo_libs c X) = Inr Y \<and> trips ! i = (ctr, X, Y))"
    and tot: "(\<exists>e g c. Some demo_extractor = Some e \<and> Some demo_features = Some g \<and>
         contour_classifier demo_fitted_state = Some c \<and>
         (\<forall>f \<in> set ?files. \<exists>ctr X Y. compute_contours e f = Inr ctr \<and>
            compute_all g ctr = Inr X \<and> snd (clf_predict demo_libs c X) = Inr Y))
      \<longrightarrow> (\<exists>trips. r = Inr trips)"
    by blast
  have "\<exists>trips. r = Inr trips"
  proof (rule tot [rule_format], intro exI conjI ballI)
    show "Some demo_extractor = Some demo_extractor" "Some demo_features = Some demo_features"
      by simp_all
    show "contour_classifier demo_fitted_state = Some (MvGaussian demo_trained)"
      by (simp add: demo_fitted_state_def)
    fix f assume "f \<in> set ?files"
    then show "compute_contours demo_extractor f = Inr f"
      by (auto simp: demo_extractor_def)
    show "compute_all demo_features f = Inr demo_X"
      using \<open>f \<in> set ?files\<close> by (auto simp: demo_features_def)
    show "snd (clf_predict demo_libs (MvGaussian demo_trained) demo_X) = Inr [Fin MAX_SCORE, Fin 0, Fin 0]"
      by (simp add: demo_clf_predict_X)
  qed
  then obtain trips where r: "r = Inr trips" by blast
  from res r have len: "length trips = 2"
    and each: "\<forall>i<2. \<exists>e g c ctr X Y.
           Some demo_extractor = Some e \<and> Some demo_features = Some g \<and>
           contour_classifier demo_fitted_state = Some c \<and>
           compute_contours e (?files ! i) = Inr ctr \<and> compute_all g ctr = Inr X \<and>
           snd (clf_predict demo_libs c X) = Inr Y \<and> trips ! i = (ctr, X, Y)"
    by simp_all
  have t0: "trips ! 0 = (''c.wav'', demo_X, [Fin MAX_SCORE, Fin 0, Fin 0])"
    using each [rule_format, of 0]
    by (auto simp: demo_fitted_state_def demo_extractor_def demo_features_def demo_clf_predict_X)
  have t1: "trips ! 1 = (''d.wav'', demo_X, [Fin MAX_SCORE, Fin 0, Fin 0])"
    using each [rule_format, of 1]
    by (auto simp: demo_fitted_state_def demo_extractor_def demo_features_def demo_clf_predict_X)
  have trips: "trips = [(''c.wav'', demo_X, [Fin MAX_SCORE, Fin 0, Fin 0]), (''d.wav'', demo_X, [Fin MAX_SCORE, Fin 0, Fin 0])]"
    using len t0 t1 by (auto simp: list_eq_iff_nth_eq less_Suc_eq numeral_2_eq_2)
  show ?thesis
    using run frame by (intro exI [of _ s']) (simp add: r trips demo_fitted_state_def)
qed

lemma demo_construct_extractor:
  "construct (get_extract_module demo_core (Some ''salamon'')) demo_start
     = (demo_start\<lparr>constructed := 1\<rparr>, Inr (Some demo_extractor))"
  by (simp add: construct_def get_extract_module_def get_module_def demo_core_def bindE_def
      demo_start_def)

lemma demo_construct_features:
  "construct (get_features_module demo_core (Some ''bitteli'')) (demo_start\<lparr>constructed := 1\<rparr>)
     = (demo_start\<lparr>constructed := 2\<rparr>, Inr (Some demo_features))"
  by (simp add: construct_def get_features_module_def get_module_def demo_core_def bindE_def
      demo_start_def)

lemma demo_construct_classifier:
  "construct (get_classify_module demo_core (Some ''mv_gaussian'')) (demo_start\<lparr>constructed := 2\<rparr>)
     = (demo_start\<lparr>constructed := 3\<rparr>, Inr (Some (MvGaussian mv_gaussian_init)))"
  by (simp add: construct_def get_classify_module_def get_module_def demo_core_def bindE_def
      demo_start_def)

lemma demo_labels_loop:
  "labels_loop demo_core (Some demo_extractor) (Some demo_features)
     [(''a.wav'', [1, 0]), (''b.wav'', [0, 1])] [] [] []
     = Inr ([''a.wav'', ''b.wav''], [demo_train_X, demo_second_X], [[1, 0], [0, 1]])"
  by (simp add: bindE_def demo_core_def demo_extractor_def demo_features_def)

lemma demo_concatenate: "concatenate [demo_train_X, demo_second_X] = Inr demo_all_X"
  by (simp add: concatenate_def demo_train_X_def demo_second_X_def demo_all_X_def)

theorem training_concatenates_and_fits_once_witness:
  "construct (get_extract_module demo_core (Some ''salamon'')) demo_start
     = (demo_start\<lparr>constructed := 1\<rparr>, Inr (Some demo_extractor)) \<and>
   construct (get_features_module demo_core (Some ''bitteli'')) (demo_start\<lparr>constructed := 1\<rparr>)
     = (demo_start\<lparr>constructed := 2\<rparr>, Inr (Some demo_features)) \<and>
   construct (get_classify_module demo_core (Some ''mv_gaussian'')) (demo_start\<lparr>constructed := 2\<rparr>)
     = (demo_start\<lparr>constructed := 3\<rparr>, Inr (Some (MvGaussian mv_gaussian_init))) \<and>
   labels_loop demo_core (Some demo_extractor) (Some demo_features)
     [(''a.wav'', [1, 0]), (''b.wav'', [0, 1])] [] [] []
     = Inr ([''a.wav'', ''b.wav''], [demo_train_X, demo_second_X], [[1, 0], [0, 1]]) \<and>
   concatenate [demo_train_X, demo_second_X] = Inr demo_all_X \<and>
   list_all2 (\<lambda>Xi Yi. nrows Xi = length Yi) [demo_train_X, demo_second_X] [[1, 0], [0, 1]] \<and>
   process_with_labels demo_core (Some demo_extractor) (Some demo_features)
     [(''a.wav'', [1, 0]), (''b.wav'', [0, 1])]
     = Inr (demo_all_X, [1, 0, 0, 1], [''a.wav'', ''b.wav'']) \<and>
   nrows demo_all_X = 4 \<and>
   filter is_fit (calls (fst (process demo_libs demo_core None
       (Some [(''a.wav'', [1, 0]), (''b.wav'', [0, 1])]) None
       (Some ''salamon'') (Some ''bitteli'') (Some ''mv_gaussian'') demo_start)))
     = [Fit demo_all_X [1, 0, 0, 1]]"
proof -
  have al: "list_all2 (\<lambda>Xi Yi. nrows Xi = length Yi) [demo_train_X, demo_second_X] [[1, 0], [0, 1]]"
    by (simp add: nrows_def demo_train_X_def demo_second_X_def)
  note T = training_concatenates_and_fits_once [OF demo_construct_extractor demo_construct_features
      demo_construct_classifier demo_labels_loop demo_concatenate al,
      where L = demo_libs and af = None and tsp = None]
  have pwl: "process_with_labels demo_core (Some demo_extractor) (Some demo_features)
     [(''a.wav'', [1, 0]), (''b.wav'', [0, 1])]
     = Inr (demo_all_X, [1, 0, 0, 1], [''a.wav'', ''b.wav''])"
    using T [THEN conjunct1] by simp
  have fits: "filter is_fit (calls (fst (process demo_libs demo_core None
       (Some [(''a.wav'', [1, 0]), (''b.wav'', [0, 1])]) None
       (Some ''salamon'') (Some ''bitteli'') (Some ''mv_gaussian'') demo_start)))
     = [Fit demo_all_X [1, 0, 0, 1]]"
    using T by (simp add: demo_start_def)
  have n: "nrows demo_all_X = 4" by (simp add: nrows_def demo_all_X_def)
  show ?thesis
    using demo_construct_extractor demo_construct_features demo_construct_classifier
      demo_labels_loop demo_concatenate al pwl n fits
    by (intro conjI)
qed

lemma call_score_Some:
  "contour_classifier s = Some c \<Longrightarrow>
   call_score core P Y prob s = (s\<lparr>calls := calls s @ [Score P Y]\<rparr>, score core c P Y prob)"
  by (simp add: call_score_def)

lemma read_threshold_Some:
  "contour_classifier s = Some c \<Longrightarrow> read_threshold s = (s, Inr (clf_threshold c))"
  by (simp add: read_threshold_def)

lemma demo_fit_single:
  "mvg_fit demo_numerics mv_gaussian_init demo_train_X [1, 1] = (demo_single, Inr ())"
  by (simp add: mvg_fit_def fit_boxcox_def mv_gaussian_init_def demo_train_X_def
      demo_numerics_def demo_single_def zeros_like_def nrows_def bindE_def get_col_def
      set_col_def EPS_def take_rows_def where_idx_def Let_def upt2)

lemma demo_transform_train:
  "n_feats m = Some 1 \<Longrightarrow> lmbda m = Some [1] \<Longrightarrow>
   transform demo_numerics m demo_train_X = Inr \<lparr>ncols = 1, rows = [[Fin 0], [Fin 1]]\<rparr>"
  by (simp add: transform_def demo_train_X_def demo_numerics_def zeros_like_def
      nrows_def bindE_def get_col_def set_col_def EPS_def)

lemma demo_transform_second:
  "n_feats m = Some 1 \<Longrightarrow> lmbda m = Some [1] \<Longrightarrow>
   transform demo_numerics m demo_second_X = Inr \<lparr>ncols = 1, rows = [[Fin 2], [Fin 3]]\<rparr>"
  by (simp add: transform_def demo_second_X_def demo_numerics_def zeros_like_def
      nrows_def bindE_def get_col_def set_col_def EPS_def)

lemma demo_ratio_zero: "ratio_of [Fin 0, Fin 0] [a, b] = [Fin 0, Fin 0]"
  by (simp add: ratio_of_def Let_def where_idx_def put_const_def take_idx_def MAX_SCORE_def
      zero_flt_def upt2)

lemma demo_ratio2: "ratio_of [Fin 1, Fin 0] [Fin 0, Fin 1] = [Fin MAX_SCORE, Fin 0]"
  by (simp add: ratio_of_def Let_def where_idx_def put_const_def take_idx_def MAX_SCORE_def
      zero_flt_def upt2)

lemma demo_predict_single_train:
  "clf_predict demo_libs (MvGaussian demo_single) demo_train_X = (MvGaussian demo_single, Inr [Fin 0, Fin 0])"
proof -
  have t: "transform demo_numerics demo_single demo_train_X = Inr \<lparr>ncols = 1, rows = [[Fin 0], [Fin 1]]\<rparr>"
    by (rule demo_transform_train) (simp_all add: demo_single_def)
  have "mvg_predict demo_numerics demo_single demo_train_X = (demo_single, Inr [Fin 0, Fin 0])"
    unfolding mvg_predict_def t by (simp add: demo_single_def pdf_def broadcast_def squeeze_def bindE_def pdf_row_def ratio_lines_def demo_ratio_zero)
  then show ?thesis by (simp add: clf_predict_def demo_libs_def)
qed

lemma demo_predict_trained_train:
  "clf_predict demo_libs (MvGaussian demo_trained) demo_train_X
     = (MvGaussian demo_trained, Inr [Fin MAX_SCORE, Fin 0])"
proof -
  have t: "transform demo_numerics demo_trained demo_train_X = Inr \<lparr>ncols = 1, rows = [[Fin 0], [Fin 1]]\<rparr>"
    by (rule demo_transform_train) (simp_all add: demo_trained_def)
  have "mvg_predict demo_numerics demo_trained demo_train_X = (demo_trained, Inr [Fin MAX_SCORE, Fin 0])"
    unfolding mvg_predict_def t by (simp add: demo_trained_def pdf_def broadcast_def squeeze_def bindE_def pdf_row_def ratio_lines_def demo_ratio2)
  then show ?thesis by (simp add: clf_predict_def demo_libs_def)
qed

lemma demo_predict_trained_second:
  "clf_predict demo_libs (MvGaussian demo_trained) demo_second_X
     = (MvGaussian demo_trained, Inr [Fin 0, Fin 0])"
proof -
  have t: "transform demo_numerics demo_trained demo_second_X = Inr \<lparr>ncols = 1, rows = [[Fin 2], [Fin 3]]\<rparr>"
    by (rule demo_transform_second) (simp_all add: demo_trained_def)
  have "mvg_predict demo_numerics demo_trained demo_second_X = (demo_trained, Inr [Fin 0, Fin 0])"
    unfolding mvg_predict_def t by (simp add: demo_trained_def pdf_def broadcast_def squeeze_def bindE_def pdf_row_def ratio_lines_def demo_ratio_zero)
  then show ?thesis by (simp add: clf_predict_def demo_libs_def)
qed

lemma demo_pwl_one:
  "f = ''a.wav'' \<or> f = ''b.wav'' \<Longrightarrow>
   process_with_labels demo_core (Some demo_extractor) (Some demo_features) [(f, Y)]
     = Inr (if f = ''a.wav'' then demo_train_X else demo_second_X, Y, [f])"
  by (auto simp: process_with_labels_def bindE_def demo_core_def demo_extractor_def
      demo_features_def concatenate_def concatenate_labels_def demo_train_X_def demo_second_X_def)

lemma demo_clf_fit:
  "clf_fit demo_libs (MvGaussian mv_gaussian_init) demo_train_X [1, 0] = (MvGaussian demo_trained, Inr ())"
  using demo_mvg_fit by (simp add: clf_fit_def demo_libs_def demo_train_Y_def)

lemma demo_clf_fit_single:
  "clf_fit demo_libs (MvGaussian mv_gaussian_init) demo_train_X [1, 1] = (MvGaussian demo_single, Inr ())"
  using demo_fit_single by (simp add: clf_fit_def demo_libs_def)

lemma demo_training_block:
  assumes c: "contour_classifier s = Some (MvGaussian mv_gaussian_init)"
  shows "training_block demo_libs demo_core (Some demo_extractor) (Some demo_features)
           [(''a.wav'', [1, 0])] s
         = (s\<lparr>contour_classifier := Some (MvGaussian demo_trained),
               calls := calls s @ [Fit demo_train_X [1, 0], Predict demo_train_X, Score [Fin 1, Fin 0] [1, 0]]\<rparr>,
            Inr ([''samples'' \<mapsto> 2], [''a.wav'']))"
proof -
  let ?s1 = "s\<lparr>contour_classifier := Some (MvGaussian demo_trained),
               calls := calls s @ [Fit demo_train_X [1, 0]]\<rparr>"
  let ?s2 = "s\<lparr>contour_classifier := Some (MvGaussian demo_trained),
               calls := calls s @ [Fit demo_train_X [1, 0], Predict demo_train_X]\<rparr>"
  have pwl: "process_with_labels demo_core (Some demo_extractor) (Some demo_features)
               [(''a.wav'', [1, 0])] = Inr (demo_train_X, [1, 0], [''a.wav''])"
    using demo_pwl_one [of "''a.wav''" "[1, 0]"] by simp
  have f: "call_fit demo_libs demo_train_X [1, 0] s = (?s1, Inr ())"
    by (simp add: call_fit_Some [OF c] demo_clf_fit)
  have c1: "contour_classifier ?s1 = Some (MvGaussian demo_trained)" by simp
  have p: "call_predict demo_libs demo_train_X ?s1 = (?s2, Inr [Fin MAX_SCORE, Fin 0])"
    by (simp add: call_predict_Some [OF c1] demo_predict_trained_train)
  have c2: "contour_classifier ?s2 = Some (MvGaussian demo_trained)" by simp
  have t: "read_threshold ?s2 = (?s2, Inr 1)"
    by (simp add: read_threshold_Some [OF c2] clf_threshold_def mvg_threshold_def)
  have d: "discretize 1 [Fin MAX_SCORE, Fin 0] = [Fin 1, Fin 0]"
    by (simp add: discretize_def MAX_SCORE_def)
  have sc: "call_score demo_core [Fin 1, Fin 0] [1, 0] (Some [Fin MAX_SCORE, Fin 0]) ?s2
              = (s\<lparr>contour_classifier := Some (MvGaussian demo_trained),
                    calls := calls s @ [Fit demo_train_X [1, 0], Predict demo_train_X, Score [Fin 1, Fin 0] [1, 0]]\<rparr>,
                 Inr [''samples'' \<mapsto> 2])"
    by (simp add: call_score_Some [OF c2] demo_core_def)
  show ?thesis
    by (simp add: training_block_def bindS_def liftE_def returnS_def pwl f p t d sc)
qed

lemma demo_audio_one:
  assumes c: "contour_classifier s = Some (MvGaussian demo_trained)"
  shows "process_audio_only demo_libs (Some demo_extractor) (Some demo_features) [''c.wav''] s
           = (s\<lparr>calls := calls s @ [Predict demo_X]\<rparr>,
              Inr [(''c.wav'', demo_X, [Fin MAX_SCORE, Fin 0, Fin 0])])"
  by (simp add: process_audio_only_def bindS_def liftE_def returnS_def demo_extractor_def
      demo_features_def call_predict_Some [OF c] demo_clf_predict_X)

theorem scoring_failure_handling_witness:
  "snd (process demo_libs demo_core None (Some [(''a.wav'', [1, 1])]) None
          (Some ''salamon'') (Some ''bitteli'') (Some ''mv_gaussian'') demo_start)
     = Inl ValueError \<and>
   snd (process demo_libs demo_core (Some [''c.wav'']) (Some [(''a.wav'', [1, 0])])
          (Some [(''b.wav'', [1, 1])])
          (Some ''salamon'') (Some ''bitteli'') (Some ''mv_gaussian'') demo_start)
     = Inr ([''samples'' \<mapsto> 2], Map.empty, [''a.wav''], [''b.wav''],
            [(''c.wav'', demo_X, [Fin MAX_SCORE, Fin 0, Fin 0])])"
proof -
  let ?ex = "Some demo_extractor" and ?fe = "Some demo_features"
  let ?s = "(demo_start\<lparr>constructed := 3\<rparr>)\<lparr>contour_classifier := Some (MvGaussian mv_gaussian_init)\<rparr>"
  have c: "contour_classifier ?s = Some (MvGaussian mv_gaussian_init)" by simp
  note T = scoring_failure_handling [OF demo_construct_extractor demo_construct_features
      demo_construct_classifier]
  \<comment> \<open>the training score raises\<close>
  let ?a1 = "?s\<lparr>contour_classifier := Some (MvGaussian demo_single),
                calls := calls ?s @ [Fit demo_train_X [1, 1]]\<rparr>"
  let ?a2 = "?a1\<lparr>calls := calls ?a1 @ [Predict demo_train_X]\<rparr>"
  let ?a3 = "?a2\<lparr>calls := calls ?a2 @ [Score [Fin 0, Fin 0] [1, 1]]\<rparr>"
  have a_pwl: "process_with_labels demo_core ?ex ?fe [(''a.wav'', [1, 1])]
                 = Inr (demo_train_X, [1, 1], [''a.wav''])"
    using demo_pwl_one [of "''a.wav''" "[1, 1]"] by simp
  have a_fit: "call_fit demo_libs demo_train_X [1, 1] ?s = (?a1, Inr ())"
    by (simp only: call_fit_Some [OF c] demo_clf_fit_single fst_conv snd_conv)
  have ca1: "contour_classifier ?a1 = Some (MvGaussian demo_single)" by simp
  have a_pred: "call_predict demo_libs demo_train_X ?a1 = (?a2, Inr [Fin 0, Fin 0])"
    by (simp only: call_predict_Some [OF ca1] demo_predict_single_train snd_conv)
  have ca2: "contour_classifier ?a2 = Some (MvGaussian demo_single)" by simp
  have th: "clf_threshold (MvGaussian m) = 1" for m
    by (simp add: clf_threshold_def mvg_threshold_def)
  have a_th: "read_threshold ?a2 = (?a2, Inr 1)"
    by (simp only: read_threshold_Some [OF ca2] th)
  have d0: "discretize 1 [Fin 0, Fin 0] = [Fin 0, Fin 0]" by (simp add: discretize_def)
  have single: "score demo_core k P [1, 1] prob = Inl ValueError" for k P prob
    by (simp add: demo_core_def)
  have a_score: "call_score demo_core (discretize 1 [Fin 0, Fin 0]) [1, 1] (Some [Fin 0, Fin 0]) ?a2
                   = (?a3, Inl ValueError)"
    by (simp only: d0 call_score_Some [OF ca2] single)
  have A: "process demo_libs demo_core None (Some [(''a.wav'', [1, 1])]) None
          (Some ''salamon'') (Some ''bitteli'') (Some ''mv_gaussian'') demo_start
            = (?a3, Inl ValueError)"
    using T [where L = demo_libs and tp = "[(''a.wav'', [1, 1])]" and af = None and tsp = None,
        THEN conjunct1, rule_format, OF conjI [OF a_pwl conjI [OF a_fit conjI [OF a_pred
          conjI [OF a_th a_score]]]]] .
  \<comment> \<open>the testing score raises ValueError\<close>
  let ?b4 = "?s\<lparr>contour_classifier := Some (MvGaussian demo_trained),
               calls := calls ?s @ [Fit demo_train_X [1, 0], Predict demo_train_X, Score [Fin 1, Fin 0] [1, 0]]\<rparr>"
  let ?b5 = "?b4\<lparr>calls := calls ?b4 @ [Predict demo_second_X]\<rparr>"
  let ?b6 = "?b5\<lparr>calls := calls ?b5 @ [Score [Fin 0, Fin 0] [1, 1]]\<rparr>"
  have b_train: "training_block demo_libs demo_core ?ex ?fe [(''a.wav'', [1, 0])] ?s
                   = (?b4, Inr ([''samples'' \<mapsto> 2], [''a.wav'']))"
    by (rule demo_training_block [OF c])
  have b_pwl: "process_with_labels demo_core ?ex ?fe [(''b.wav'', [1, 1])]
                 = Inr (demo_second_X, [1, 1], [''b.wav''])"
    using demo_pwl_one [of "''b.wav''" "[1, 1]"] by simp
  have cb4: "contour_classifier ?b4 = Some (MvGaussian demo_trained)" by simp
  have b_pred: "call_predict demo_libs demo_second_X ?b4 = (?b5, Inr [Fin 0, Fin 0])"
    by (simp only: call_predict_Some [OF cb4] demo_predict_trained_second snd_conv)
  have cb5: "contour_classifier ?b5 = Some (MvGaussian demo_trained)" by simp
  have b_score: "call_score demo_core [Fin 0, Fin 0] [1, 1] None ?b5 = (?b6, Inl ValueError)"
    by (simp only: call_score_Some [OF cb5] single)
  have cb6: "contour_classifier ?b6 = Some (MvGaussian demo_trained)" by simp
  have b_audio: "process_audio_only demo_libs ?ex ?fe [''c.wav''] ?b6
                   = (?b6\<lparr>calls := calls ?b6 @ [Predict demo_X]\<rparr>,
                      Inr [(''c.wav'', demo_X, [Fin MAX_SCORE, Fin 0, Fin 0])])"
    by (rule demo_audio_one [OF cb6])
  have B: "process demo_libs demo_core (Some [''c.wav'']) (Some [(''a.wav'', [1, 0])])
          (Some [(''b.wav'', [1, 1])])
          (Some ''salamon'') (Some ''bitteli'') (Some ''mv_gaussian'') demo_start
            = (?b6\<lparr>calls := calls ?b6 @ [Predict demo_X]\<rparr>,
               Inr (fst ([''samples'' \<mapsto> 2 :: real], [''a.wav'']), Map.empty,
                    snd ([''samples'' \<mapsto> 2 :: real], [''a.wav'']), [''b.wav''],
                    [(''c.wav'', demo_X, [Fin MAX_SCORE, Fin 0, Fin 0])]))"
    using T [where L = demo_libs and tp = "[(''a.wav'', [1, 0])]" and tsp' = "[(''b.wav'', [1, 1])]",
        THEN conjunct2, rule_format, OF conjI [OF b_train conjI [OF b_pwl conjI [OF b_pred
          conjI [OF b_score b_audio]]]], THEN conjunct2] .
  show ?thesis
    unfolding A B by simp
qed

lemma process_training_only_unbound:
  "snd (process demo_libs demo_core None (Some [(''a.wav'', [1, 0])]) None
          (Some ''salamon'') (Some ''bitteli'') (Some ''mv_gaussian'') demo_start)
     = Inl (UnboundLocalError ''test_scores'') \<and>
   snd (process demo_libs demo_core None None None
          (Some ''salamon'') (Some ''bitteli'') (Some ''mv_gaussian'') demo_start)
     = Inl (UnboundLocalError ''train_scores'')"
proof -
  let ?s = "(demo_start\<lparr>constructed := 3\<rparr>)\<lparr>contour_classifier := Some (MvGaussian mv_gaussian_init)\<rparr>"
  have c: "contour_classifier ?s = Some (MvGaussian mv_gaussian_init)" by simp
  note U = process_unfold [OF demo_construct_extractor demo_construct_features
      demo_construct_classifier]
  show ?thesis
    unfolding U
    by (simp add: bindS_def optionally_def returnS_def liftE_def demo_training_block [OF c]
        return_tuple_def)
qed

end
